theory Spec2Isabelle
  imports Complex_Main
begin

section \<open>Strings and numbers\<close>

text \<open>
  A JavaScript string is modelled as a \<^typ>\<open>string\<close>, a list of 8-bit characters read as
  code units of the Latin-1 range. A score is modelled as an exact rational: rounding of
  doubles is not part of the model of the scores. The numbers that \<open>parseInt\<close> reads from
  strings are modelled as doubles (section ``Integers read from strings'').
\<close>

type_synonym number = rat

definition charCode :: "char \<Rightarrow> nat" where
  "charCode c = of_char c"

definition isDigit :: "char \<Rightarrow> bool" where
  "isDigit c = (48 \<le> charCode c \<and> charCode c \<le> 57)"

definition isUpperAZ :: "char \<Rightarrow> bool" where
  "isUpperAZ c = (65 \<le> charCode c \<and> charCode c \<le> 90)"

definition isLowerAZ :: "char \<Rightarrow> bool" where
  "isLowerAZ c = (97 \<le> charCode c \<and> charCode c \<le> 122)"

definition isLetter :: "char \<Rightarrow> bool" where
  "isLetter c = (isUpperAZ c \<or> isLowerAZ c)"

text \<open>The class \<open>\w\<close>: letters, digits and the underscore.\<close>

definition isWordChar :: "char \<Rightarrow> bool" where
  "isWordChar c = (isLetter c \<or> isDigit c \<or> charCode c = 95)"

text \<open>The class \<open>\s\<close> (and what \<open>trim\<close> removes), within the 8-bit range.\<close>

definition isSpace :: "char \<Rightarrow> bool" where
  "isSpace c = (let n = charCode c in
     n = 9 \<or> n = 10 \<or> n = 11 \<or> n = 12 \<or> n = 13 \<or> n = 32 \<or> n = 160)"

text \<open>
  \<open>toLowerCase\<close>: an upper-case letter (ASCII, or Latin-1 apart from the multiplication
  sign) becomes the character 32 above it, which is the same code with bit 5 set.
\<close>

definition hasLowerForm :: "char \<Rightarrow> bool" where
  "hasLowerForm c = (let n = charCode c in
     if n = 215 then False else (65 \<le> n \<and> n \<le> 90) \<or> (192 \<le> n \<and> n \<le> 222))"

definition toLowerChar :: "char \<Rightarrow> char" where
  "toLowerChar c =
     (if hasLowerForm c
      then Char (digit0 c) (digit1 c) (digit2 c) (digit3 c) (digit4 c) True (digit6 c) (digit7 c)
      else c)"

definition toLowerCase :: "string \<Rightarrow> string" where
  "toLowerCase s = map toLowerChar s"

text \<open>\<open>s.replace(/[^\w\s]/g, ' ')\<close>\<close>

definition replacePunct :: "string \<Rightarrow> string" where
  "replacePunct s = map (\<lambda>c. if isWordChar c \<or> isSpace c then c else CHR '' '') s"

text \<open>\<open>s.replace(/\s+/g, ' ')\<close>: every maximal run of whitespace becomes one blank.
  The flag says whether the previous character belonged to a run.\<close>

fun collapseFrom :: "bool \<Rightarrow> string \<Rightarrow> string" where
  "collapseFrom inRun [] = []"
| "collapseFrom inRun (c # cs) =
     (if isSpace c
      then (if inRun then collapseFrom True cs else CHR '' '' # collapseFrom True cs)
      else c # collapseFrom False cs)"

definition collapseSpaces :: "string \<Rightarrow> string" where
  "collapseSpaces s = collapseFrom False s"

definition trimStart :: "string \<Rightarrow> string" where
  "trimStart s = dropWhile isSpace s"

definition trim :: "string \<Rightarrow> string" where
  "trim s = rev (trimStart (rev (trimStart s)))"

text \<open>\<open>h.includes(n)\<close>\<close>

definition startsWith :: "string \<Rightarrow> string \<Rightarrow> bool" where
  "startsWith s p = (take (length p) s = p)"

fun includesStr :: "string \<Rightarrow> string \<Rightarrow> bool" where
  "includesStr [] n = (n = [])"
| "includesStr (h # hs) n = (startsWith (h # hs) n \<or> includesStr hs n)"

text \<open>\<open>s.split(c)\<close> for a one-character separator; the empty string gives one empty part.\<close>

fun splitOn :: "char \<Rightarrow> string \<Rightarrow> string list" where
  "splitOn sep [] = [[]]"
| "splitOn sep (c # cs) =
     (if c = sep then [] # splitOn sep cs
      else (case splitOn sep cs of
              [] \<Rightarrow> [[c]]
            | w # ws \<Rightarrow> (c # w) # ws))"

section \<open>String matching\<close>

subsection \<open>Normalisation\<close>

definition normalizeString :: "string \<Rightarrow> string" where
  "normalizeString str = trim (collapseSpaces (replacePunct (toLowerCase str)))"

text \<open>\<open>s.replace(/^(the|a|an)\s+/i, '')\<close>: the alternatives are tried in order, each
  needing at least one whitespace character after it; the whole whitespace run is removed.\<close>

definition stripWord :: "string \<Rightarrow> string \<Rightarrow> string option" where
  "stripWord w s =
     (if toLowerCase (take (length w) s) = w
      then (case drop (length w) s of
              [] \<Rightarrow> None
            | c # cs \<Rightarrow> if isSpace c then Some (dropWhile isSpace cs) else None)
      else None)"

definition stripArticle :: "string \<Rightarrow> string" where
  "stripArticle s =
     (case stripWord ''the'' s of
        Some r \<Rightarrow> r
      | None \<Rightarrow>
         (case stripWord ''a'' s of
            Some r \<Rightarrow> r
          | None \<Rightarrow>
             (case stripWord ''an'' s of
                Some r \<Rightarrow> r
              | None \<Rightarrow> s)))"

definition normalizeTitle :: "string \<Rightarrow> string" where
  "normalizeTitle str =
     trim (collapseSpaces (replacePunct (stripArticle (toLowerCase str))))"

subsection \<open>Edit distance\<close>

text \<open>
  \<open>matrix a b i j\<close> is the value the loops of \<open>levenshteinDistance\<close> store in
  \<open>matrix[i][j]\<close>: row \<open>0\<close> and column \<open>0\<close> are initialised by the first two loops, every
  other cell is computed from its three neighbours.
\<close>

fun matrix :: "string \<Rightarrow> string \<Rightarrow> nat \<Rightarrow> nat \<Rightarrow> nat" where
  "matrix a b 0 j = j"
| "matrix a b (Suc i) 0 = Suc i"
| "matrix a b (Suc i) (Suc j) =
     (if b ! i = a ! j then matrix a b i j
      else min (matrix a b i j + 1) (min (matrix a b (Suc i) j + 1) (matrix a b i (Suc j) + 1)))"

definition levenshteinDistance :: "string \<Rightarrow> string \<Rightarrow> nat" where
  "levenshteinDistance a b = matrix a b (length b) (length a)"

definition stringSimilarity :: "string \<Rightarrow> string \<Rightarrow> number" where
  "stringSimilarity a b =
     (let normalizedA = normalizeString a; normalizedB = normalizeString b in
      if normalizedA = normalizedB then 1
      else if length normalizedA = 0 \<or> length normalizedB = 0 then 0
      else 1 - of_nat (levenshteinDistance normalizedA normalizedB)
               / of_nat (max (length normalizedA) (length normalizedB)))"

subsection \<open>Token similarity\<close>

definition tokensOf :: "string \<Rightarrow> string list" where
  "tokensOf a = filter (\<lambda>t. length t > 2) (splitOn CHR '' '' (normalizeString a))"

text \<open>The inner loop: what one token of \<open>a\<close> adds to \<open>matchCount\<close>, scanning the tokens
  of \<open>b\<close> up to the first exact or fuzzy match.\<close>

fun matchToken :: "string \<Rightarrow> string list \<Rightarrow> number" where
  "matchToken tokenA [] = 0"
| "matchToken tokenA (tokenB # rest) =
     (if tokenA = tokenB then 1
      else if length tokenA > 4 \<and> length tokenB > 4
      then (let sim = stringSimilarity tokenA tokenB in
            if sim > 8 / 10 then sim else matchToken tokenA rest)
      else matchToken tokenA rest)"

text \<open>The outer loop, with \<open>matchCount\<close> as accumulator.\<close>

fun countMatches :: "string list \<Rightarrow> string list \<Rightarrow> number \<Rightarrow> number" where
  "countMatches [] tokensB matchCount = matchCount"
| "countMatches (tokenA # rest) tokensB matchCount =
     countMatches rest tokensB (matchCount + matchToken tokenA tokensB)"

definition tokenSimilarity :: "string \<Rightarrow> string \<Rightarrow> number" where
  "tokenSimilarity a b =
     (let tokensA = tokensOf a; tokensB = tokensOf b in
      if tokensA = [] \<or> tokensB = [] then 0
      else countMatches tokensA tokensB 0 / of_nat (length (remdups (tokensA @ tokensB))))"

definition combinedSimilarity :: "string \<Rightarrow> string \<Rightarrow> number" where
  "combinedSimilarity a b = max (stringSimilarity a b) (tokenSimilarity a b)"

definition titleSimilarity :: "string \<Rightarrow> string \<Rightarrow> number" where
  "titleSimilarity a b =
     (let normA = normalizeTitle a; normB = normalizeTitle b in
      if normA = normB then 1
      else if length normA = 0 \<or> length normB = 0 then 0
      else if includesStr normA normB \<or> includesStr normB normA
      then of_nat (min (length normA) (length normB)) / of_nat (max (length normA) (length normB))
      else combinedSimilarity a b)"

section \<open>Author names\<close>

text \<open>\<open>s.split(/\s+/)\<close>: the parts between maximal runs of whitespace. The flag says
  whether the previous character belonged to a run.\<close>

fun splitWsFrom :: "bool \<Rightarrow> string \<Rightarrow> string list" where
  "splitWsFrom inRun [] = [[]]"
| "splitWsFrom inRun (c # cs) =
     (if isSpace c
      then (if inRun then splitWsFrom True cs else [] # splitWsFrom True cs)
      else (case splitWsFrom False cs of
              [] \<Rightarrow> [[c]]
            | w # ws \<Rightarrow> (c # w) # ws))"

definition splitWhitespace :: "string \<Rightarrow> string list" where
  "splitWhitespace s = splitWsFrom False s"

text \<open>\<open>s.replace(',', '')\<close> removes the first comma only; \<open>s.replace(/\./g, '')\<close> removes
  every full stop.\<close>

fun removeFirst :: "char \<Rightarrow> string \<Rightarrow> string" where
  "removeFirst x [] = []"
| "removeFirst x (c # cs) = (if c = x then cs else c # removeFirst x cs)"

definition removeDots :: "string \<Rightarrow> string" where
  "removeDots s = filter (\<lambda>c. if c = CHR ''.'' then False else True) s"

definition endsWithChar :: "string \<Rightarrow> char \<Rightarrow> bool" where
  "endsWithChar s c = (case rev s of [] \<Rightarrow> False | l # _ \<Rightarrow> l = c)"

text \<open>\<open>x.length <= 2 && /^[a-zA-Z]+$/.test(x)\<close>\<close>

definition looksLikeInitial :: "string \<Rightarrow> bool" where
  "looksLikeInitial x = (length x \<le> 2 \<and> 0 < length x \<and> list_all isLetter x)"

definition extractLastName :: "string \<Rightarrow> string" where
  "extractLastName name =
     (case splitWhitespace (trim name) of
        [] \<Rightarrow> []
      | p0 # ps \<Rightarrow>
          (let parts = p0 # ps; lastPart = last parts in
           if endsWithChar p0 CHR '','' then toLowerCase (removeFirst CHR '','' p0)
           else if looksLikeInitial (removeDots lastPart) \<and> length parts \<ge> 2
           then toLowerCase p0
           else if looksLikeInitial (removeDots p0) \<and> length parts \<ge> 2
           then toLowerCase lastPart
           else toLowerCase lastPart))"

text \<open>The two \<open>Set\<close>s of last names are lists without duplicates; only their sizes and
  membership are used.\<close>

definition compareAuthorLists :: "string list \<Rightarrow> string list \<Rightarrow> number" where
  "compareAuthorLists authors1 authors2 =
     (if length authors1 = 0 \<or> length authors2 = 0 then 0
      else
        (let lastNames1 = remdups (map extractLastName authors1);
             lastNames2 = remdups (map extractLastName authors2);
             intersection = filter (\<lambda>name. name \<in> set lastNames2) lastNames1;
             minSize = min (length lastNames1) (length lastNames2)
         in of_nat (length intersection) / of_nat minSize))"

section \<open>Integers read from strings\<close>

text \<open>
  \<open>parseInt\<close> returns a double. A value of \<open>jsnumber\<close> is \<open>NaN\<close>, a finite double whose
  value is an integer, or an infinity. The integer written by the digits is exact;
  \<open>roundToDouble\<close> gives the double nearest to it, a tie going to the even significand: it
  is the integer itself below \<open>2^53\<close>, a multiple of \<open>2^e\<close> with a significand of 53 bits
  above, and no finite double (\<open>None\<close>) from \<open>2^1024 - 2^970\<close> on.
\<close>

datatype jsnumber = NaN | Finite int | PlusInfinity | MinusInfinity

fun bitLength :: "int \<Rightarrow> nat" where
  "bitLength n = (if n \<le> 0 then 0 else Suc (bitLength (n div 2)))"

declare bitLength.simps [simp del]

definition roundToDouble :: "int \<Rightarrow> int option" where
  "roundToDouble n =
     (if n < 2 ^ 53 then Some n
      else (let e = bitLength n - 53;
                q = n div 2 ^ e;
                r = n mod 2 ^ e;
                m = (if 2 ^ e < 2 * r \<or> (2 * r = 2 ^ e \<and> odd q) then q + 1 else q) * 2 ^ e
            in if m < 2 ^ 1024 then Some m else None))"

text \<open>The double of a magnitude and a sign, and the double of an integer.\<close>

definition signedDouble :: "bool \<Rightarrow> int \<Rightarrow> jsnumber" where
  "signedDouble negative n =
     (case roundToDouble n of
        None \<Rightarrow> if negative then MinusInfinity else PlusInfinity
      | Some m \<Rightarrow> Finite (if negative then - m else m))"

definition doubleOfInt :: "int \<Rightarrow> jsnumber" where
  "doubleOfInt i = signedDouble (i < 0) \<bar>i\<bar>"

text \<open>\<open>isNaN(x)\<close>, \<open>x - y\<close> (the exact difference of two finite doubles is rounded),
  \<open>Math.abs(x)\<close>, and the comparisons \<open>x <= k\<close>, \<open>x >= k\<close>, \<open>x > k\<close> and \<open>x === k\<close> with an
  integer constant; every comparison with \<open>NaN\<close> is false.\<close>

definition isNaN :: "jsnumber \<Rightarrow> bool" where
  "isNaN x = (x = NaN)"

fun subtract :: "jsnumber \<Rightarrow> jsnumber \<Rightarrow> jsnumber" where
  "subtract NaN y = NaN"
| "subtract x NaN = NaN"
| "subtract (Finite a) (Finite b) = doubleOfInt (a - b)"
| "subtract (Finite a) PlusInfinity = MinusInfinity"
| "subtract (Finite a) MinusInfinity = PlusInfinity"
| "subtract PlusInfinity PlusInfinity = NaN"
| "subtract PlusInfinity y = PlusInfinity"
| "subtract MinusInfinity MinusInfinity = NaN"
| "subtract MinusInfinity y = MinusInfinity"

fun mathAbs :: "jsnumber \<Rightarrow> jsnumber" where
  "mathAbs NaN = NaN"
| "mathAbs (Finite a) = Finite \<bar>a\<bar>"
| "mathAbs PlusInfinity = PlusInfinity"
| "mathAbs MinusInfinity = PlusInfinity"

fun lessEq :: "jsnumber \<Rightarrow> int \<Rightarrow> bool" where
  "lessEq (Finite a) k = (a \<le> k)"
| "lessEq MinusInfinity k = True"
| "lessEq x k = False"

fun greaterEq :: "jsnumber \<Rightarrow> int \<Rightarrow> bool" where
  "greaterEq (Finite a) k = (a \<ge> k)"
| "greaterEq PlusInfinity k = True"
| "greaterEq x k = False"

fun greater :: "jsnumber \<Rightarrow> int \<Rightarrow> bool" where
  "greater (Finite a) k = (a > k)"
| "greater PlusInfinity k = True"
| "greater x k = False"

fun strictEq :: "jsnumber \<Rightarrow> int \<Rightarrow> bool" where
  "strictEq (Finite a) k = (a = k)"
| "strictEq x k = False"

text \<open>\<open>parseInt(s)\<close> without a radix: leading whitespace and a sign are skipped, a \<open>0x\<close>
  prefix selects base 16, the longest run of digits is read, and no digit at all gives
  \<open>NaN\<close>. \<open>parseInt(s, 10)\<close> is the same without the prefix.\<close>

definition decimalValue :: "char \<Rightarrow> nat" where
  "decimalValue c = charCode c - 48"

definition isHexDigit :: "char \<Rightarrow> bool" where
  "isHexDigit c =
     (isDigit c \<or> (65 \<le> charCode c \<and> charCode c \<le> 70) \<or> (97 \<le> charCode c \<and> charCode c \<le> 102))"

definition hexValue :: "char \<Rightarrow> nat" where
  "hexValue c =
     (if isDigit c then charCode c - 48
      else if charCode c \<le> 70 then charCode c - 55
      else charCode c - 87)"

definition digitsValue :: "int \<Rightarrow> (char \<Rightarrow> nat) \<Rightarrow> string \<Rightarrow> int" where
  "digitsValue radix val ds = foldl (\<lambda>acc c. acc * radix + int (val c)) 0 ds"

definition parseUnsigned :: "string \<Rightarrow> int option" where
  "parseUnsigned s =
     (if take 2 s = ''0x'' \<or> take 2 s = ''0X''
      then (case takeWhile isHexDigit (drop 2 s) of
              [] \<Rightarrow> None
            | d # ds \<Rightarrow> Some (digitsValue 16 hexValue (d # ds)))
      else (case takeWhile isDigit s of
              [] \<Rightarrow> None
            | d # ds \<Rightarrow> Some (digitsValue 10 decimalValue (d # ds))))"

definition parseDecimal :: "string \<Rightarrow> int option" where
  "parseDecimal s =
     (case takeWhile isDigit s of
        [] \<Rightarrow> None
      | d # ds \<Rightarrow> Some (digitsValue 10 decimalValue (d # ds)))"

definition signedNumber :: "(string \<Rightarrow> int option) \<Rightarrow> string \<Rightarrow> jsnumber" where
  "signedNumber unsigned s =
     (case trimStart s of
        [] \<Rightarrow> NaN
      | c # cs \<Rightarrow>
          (case unsigned (if c = CHR ''-'' \<or> c = CHR ''+'' then cs else c # cs) of
             None \<Rightarrow> NaN
           | Some n \<Rightarrow> signedDouble (c = CHR ''-'') n))"

definition parseInt :: "string \<Rightarrow> jsnumber" where
  "parseInt s = signedNumber parseUnsigned s"

definition parseInt10 :: "string \<Rightarrow> jsnumber" where
  "parseInt10 s = signedNumber parseDecimal s"

section \<open>Data model\<close>

record reference =
  ref_id :: string
  raw_text :: string
  title :: string
  authors :: "string list"
  year :: string
  venue :: string
  doi :: "string option"
  urls :: "string list"
  page_number :: "int option"
  citation_number :: "int option"

record retrieved_data =
  rd_title :: string
  rd_authors :: "string list"
  rd_year :: string
  rd_venue :: string
  rd_doi :: "string option"
  rd_url :: "string option"

datatype source_name = crossref | semantic_scholar | openalex | arxiv | web_search

datatype pipeline_step = step_api | step_query_enhanced | step_web_search

record validation_source =
  name :: source_name
  found :: bool
  matchScore :: number
  retrievedData :: "retrieved_data option"
  errors :: "string list"
  confidence :: "number option"
  step :: "pipeline_step option"

datatype validation_status = verified | warning | error | unverified | pending

datatype issue_type =
  title_mismatch | author_mismatch | year_mismatch | doi_mismatch | venue_mismatch | not_found

datatype severity = sev_warning | sev_error

text \<open>The message of an issue is a template filled with a number; the model keeps the
  template and the number, not the formatted text.\<close>

datatype issue_message =
    msg_not_found_in_any_database
  | msg_title_similarity number
  | msg_author_overlap number
  | msg_year_difference jsnumber
  | msg_web_possible_match number
  | msg_validation_failed string

record validation_issue =
  issue_type :: issue_type
  severity :: severity
  message :: issue_message
  expected :: string
  found_text :: string

record validation_result =
  referenceId :: string
  status :: validation_status
  sources :: "validation_source list"
  issues :: "validation_issue list"
  bestMatch :: "retrieved_data option"

datatype validation_mode = api_only | agent_based

record settings =
  mode :: validation_mode
  enableCrossRef :: bool
  enableSemanticScholar :: bool
  enableOpenAlex :: bool
  enableArxiv :: bool
  rateLimitDelay :: nat

text \<open>A string used as a condition is true when it is not empty.\<close>

definition truthy :: "string \<Rightarrow> bool" where
  "truthy s = (0 < length s)"

section \<open>Connectors\<close>

subsection \<open>Match score\<close>

text \<open>\<open>(a.split(' ').pop() || a).toLowerCase()\<close>\<close>

definition lastWordLower :: "string \<Rightarrow> string" where
  "lastWordLower a =
     (let l = last (splitOn CHR '' '' a) in toLowerCase (if l = [] then a else l))"

definition yearScore :: "jsnumber \<Rightarrow> number" where
  "yearScore yearDiff =
     (if strictEq yearDiff 0 then 1 else if strictEq yearDiff 1 then 9 / 10
      else if strictEq yearDiff 2 then 7 / 10 else 3 / 10)"

text \<open>The accumulated pair is \<open>(score, weights)\<close>. The function is the same, line by line, in
  the CrossRef, Semantic Scholar and OpenAlex connectors.\<close>

definition addTitlePart :: "reference \<Rightarrow> retrieved_data \<Rightarrow> number \<times> number \<Rightarrow> number \<times> number" where
  "addTitlePart reference retrieved sw =
     (if truthy (title reference) \<and> truthy (rd_title retrieved)
      then (fst sw + titleSimilarity (title reference) (rd_title retrieved) * (5 / 10),
            snd sw + 5 / 10)
      else sw)"

definition lastNameMatches :: "string list \<Rightarrow> string \<Rightarrow> bool" where
  "lastNameMatches retLastNames nm =
     list_ex (\<lambda>n. includesStr n nm \<or> includesStr nm n) retLastNames"

definition addAuthorPart :: "reference \<Rightarrow> retrieved_data \<Rightarrow> number \<times> number \<Rightarrow> number \<times> number" where
  "addAuthorPart reference retrieved sw =
     (if length (authors reference) > 0 \<and> length (rd_authors retrieved) > 0
      then
        (let refLastNames = map lastWordLower (authors reference);
             retLastNames = map lastWordLower (rd_authors retrieved);
             matchCount = length (filter (lastNameMatches retLastNames) refLastNames);
             authorScore = of_nat matchCount
                           / of_nat (max (length refLastNames) (length retLastNames))
         in (fst sw + authorScore * (3 / 10), snd sw + 3 / 10))
      else sw)"

definition addYearPart :: "reference \<Rightarrow> retrieved_data \<Rightarrow> number \<times> number \<Rightarrow> number \<times> number" where
  "addYearPart reference retrieved sw =
     (if truthy (year reference) \<and> truthy (rd_year retrieved)
      then (let refYear = parseInt (year reference);
                retYear = parseInt (rd_year retrieved)
            in if \<not> isNaN refYear \<and> \<not> isNaN retYear
               then (fst sw + yearScore (mathAbs (subtract refYear retYear)) * (2 / 10),
                     snd sw + 2 / 10)
               else sw)
      else sw)"

definition normalizeByWeights :: "number \<times> number \<Rightarrow> number" where
  "normalizeByWeights sw = (if snd sw > 0 then fst sw / snd sw else 0)"

definition calculateMatchScore :: "reference \<Rightarrow> retrieved_data \<Rightarrow> number" where
  "calculateMatchScore reference retrieved =
     normalizeByWeights
       (addYearPart reference retrieved
         (addAuthorPart reference retrieved
           (addTitlePart reference retrieved (0, 0))))"

text \<open>The arXiv connector has its own score: edit similarity of the titles with weight 0.4,
  last words compared as sets, and a year part without a \<open>NaN\<close> check (a \<open>NaN\<close>
  difference scores 0 but still adds its weight).\<close>

definition arxivLastWord :: "string \<Rightarrow> string" where
  "arxivLastWord a = last (splitOn CHR '' '' (toLowerCase a))"

definition calculateMatchScoreArxiv :: "reference \<Rightarrow> retrieved_data \<Rightarrow> number" where
  "calculateMatchScoreArxiv reference retrieved =
     (let sw1 = (if truthy (title reference) \<and> truthy (rd_title retrieved)
                 then (stringSimilarity (title reference) (rd_title retrieved) * (4 / 10), 4 / 10)
                 else (0, 0));
          sw2 = (if length (authors reference) > 0 \<and> length (rd_authors retrieved) > 0
                 then
                   (let refAuthors = remdups (map arxivLastWord (authors reference));
                        retAuthors = remdups (map arxivLastWord (rd_authors retrieved));
                        intersection = filter (\<lambda>a. a \<in> set retAuthors) refAuthors
                    in (fst sw1 + of_nat (length intersection)
                                  / of_nat (max (length refAuthors) (length retAuthors)) * (3 / 10),
                        snd sw1 + 3 / 10))
                 else sw1);
          sw3 = (if truthy (year reference) \<and> truthy (rd_year retrieved)
                 then
                   (let yearDiff = mathAbs (subtract (parseInt (year reference))
                                               (parseInt (rd_year retrieved)))
                    in (fst sw2 + (if strictEq yearDiff 0 then 1
                                   else if strictEq yearDiff 1 then 8 / 10 else 0) * (2 / 10),
                        snd sw2 + 2 / 10))
                 else sw2)
      in normalizeByWeights sw3)"

subsection \<open>The four database connectors\<close>

text \<open>
  What the network answers is not part of the program. A \<open>world\<close> gives, for every
  connector and reference, the outcome of the part of the \<open>try\<close> block that precedes the
  assignment of \<open>source.retrievedData\<close>: an exception (\<open>Inl\<close> its message), no record
  (\<open>Inr None\<close>) or the record converted to retrieved data. It also gives the answers of the
  injected capabilities of the staged pipeline.
\<close>

record enhanced_query =
  q_title :: string
  q_authors :: "string list"
  q_year :: "string option"
  q_description :: string

record world =
  crossrefAnswer :: "reference \<Rightarrow> string + retrieved_data option"
  semanticScholarAnswer :: "reference \<Rightarrow> string + retrieved_data option"
  openAlexAnswer :: "reference \<Rightarrow> string + retrieved_data option"
  arxivAnswer :: "reference \<Rightarrow> string + retrieved_data option"
  enhanceQueriesWithLLM :: "reference \<Rightarrow> string + enhanced_query list"
  perplexityAnswer :: "reference \<Rightarrow> string + retrieved_data option"
  explanationFailure :: "reference \<Rightarrow> validation_status \<Rightarrow> string option"

definition emptySource :: "source_name \<Rightarrow> validation_source" where
  "emptySource n =
     \<lparr>name = n, found = False, matchScore = 0, retrievedData = None, errors = [],
      confidence = None, step = None\<rparr>"

definition connectorResult ::
  "source_name \<Rightarrow> string \<Rightarrow> string \<Rightarrow> (reference \<Rightarrow> retrieved_data \<Rightarrow> number) \<Rightarrow>
   reference \<Rightarrow> string + retrieved_data option \<Rightarrow> validation_source" where
  "connectorResult n notFoundMessage errorPrefix score reference answer =
     (case answer of
        Inl msg \<Rightarrow> (emptySource n)\<lparr>errors := [errorPrefix @ msg]\<rparr>
      | Inr None \<Rightarrow> (emptySource n)\<lparr>errors := [notFoundMessage]\<rparr>
      | Inr (Some retrieved) \<Rightarrow>
          (emptySource n)\<lparr>retrievedData := Some retrieved, found := True,
                           matchScore := score reference retrieved\<rparr>)"

definition validateWithCrossRef :: "world \<Rightarrow> reference \<Rightarrow> validation_source" where
  "validateWithCrossRef w reference =
     connectorResult crossref ''Reference not found in CrossRef'' ''CrossRef API error: ''
       calculateMatchScore reference (crossrefAnswer w reference)"

definition validateWithSemanticScholar :: "world \<Rightarrow> reference \<Rightarrow> validation_source" where
  "validateWithSemanticScholar w reference =
     connectorResult semantic_scholar ''Reference not found in Semantic Scholar''
       ''Semantic Scholar API error: '' calculateMatchScore reference
       (semanticScholarAnswer w reference)"

definition validateWithOpenAlex :: "world \<Rightarrow> reference \<Rightarrow> validation_source" where
  "validateWithOpenAlex w reference =
     connectorResult openalex ''Reference not found in OpenAlex'' ''OpenAlex API error: ''
       calculateMatchScore reference (openAlexAnswer w reference)"

definition validateWithArxiv :: "world \<Rightarrow> reference \<Rightarrow> validation_source" where
  "validateWithArxiv w reference =
     connectorResult arxiv ''Reference not found in ArXiv'' ''ArXiv API error: ''
       calculateMatchScoreArxiv reference (arxivAnswer w reference)"

subsection \<open>Web search\<close>

definition calculateConfidence :: "reference \<Rightarrow> retrieved_data \<Rightarrow> number" where
  "calculateConfidence reference retrieved =
     (let sw1 = addTitlePart reference retrieved (0, 0);
          sw2 = (if length (authors reference) > 0 \<and> length (rd_authors retrieved) > 0
                 then (fst sw1 + compareAuthorLists (authors reference) (rd_authors retrieved)
                                 * (3 / 10),
                       snd sw1 + 3 / 10)
                 else sw1)
      in normalizeByWeights (addYearPart reference retrieved sw2))"

definition searchWebForReference :: "world \<Rightarrow> reference \<Rightarrow> validation_source" where
  "searchWebForReference w reference =
     (let source = (emptySource web_search)\<lparr>step := Some step_web_search, confidence := Some 0\<rparr>
      in case perplexityAnswer w reference of
           Inl msg \<Rightarrow> source\<lparr>errors := [''Perplexity API error: '' @ msg]\<rparr>
         | Inr None \<Rightarrow>
             source\<lparr>errors := [''Could not extract structured data from Perplexity response'']\<rparr>
         | Inr (Some extractedData) \<Rightarrow>
             (let c = calculateConfidence reference extractedData
              in source\<lparr>retrievedData := Some extractedData, found := (c > 0),
                        matchScore := c, confidence := Some c\<rparr>))"

section \<open>Validation analyzer\<close>

definition TITLE_MATCH_THRESHOLD :: number where
  "TITLE_MATCH_THRESHOLD = 70 / 100"

definition AUTHOR_MATCH_THRESHOLD :: number where
  "AUTHOR_MATCH_THRESHOLD = 60 / 100"

definition YEAR_TOLERANCE :: int where
  "YEAR_TOLERANCE = 1"

definition WEB_SEARCH_CONFIDENCE_THRESHOLD :: number where
  "WEB_SEARCH_CONFIDENCE_THRESHOLD = 70 / 100"

record analysis =
  a_status :: validation_status
  a_issues :: "validation_issue list"
  a_bestMatch :: "retrieved_data option"
  a_confidence :: number

text \<open>\<open>sources.filter(s => s.found && s.matchScore > 0)\<close> and the stable sort by
  descending score that follows it.\<close>

definition foundSourcesOf :: "validation_source list \<Rightarrow> validation_source list" where
  "foundSourcesOf srcs = filter (\<lambda>s. found s \<and> matchScore s > 0) srcs"

definition sortByScore :: "validation_source list \<Rightarrow> validation_source list" where
  "sortByScore srcs = sort_key (\<lambda>s. - matchScore s) srcs"

definition findBestMatch :: "validation_source list \<Rightarrow> validation_source option" where
  "findBestMatch srcs =
     (case sortByScore (foundSourcesOf srcs) of
        [] \<Rightarrow> None
      | best # _ \<Rightarrow> Some best)"

text \<open>The three field comparisons. Each returns the score (or the flag) and the issues it
  pushes.\<close>

definition titleCheck :: "reference \<Rightarrow> retrieved_data \<Rightarrow> number \<times> validation_issue list" where
  "titleCheck reference matched =
     (if truthy (title reference) \<and> truthy (rd_title matched)
      then
        (let titleScore = titleSimilarity (title reference) (rd_title matched) in
         (titleScore,
          if titleScore < TITLE_MATCH_THRESHOLD
          then [\<lparr>issue_type = title_mismatch,
                 severity = (if titleScore < 5 / 10 then sev_error else sev_warning),
                 message = msg_title_similarity (titleScore * 100),
                 expected = title reference, found_text = rd_title matched\<rparr>]
          else []))
      else if truthy (title reference) then (0, [])
      else (1, []))"

text \<open>\<open>xs.join(', ')\<close>\<close>

fun joinComma :: "string list \<Rightarrow> string" where
  "joinComma [] = []"
| "joinComma [x] = x"
| "joinComma (x # y # ys) = x @ '', '' @ joinComma (y # ys)"

definition authorCheck :: "reference \<Rightarrow> retrieved_data \<Rightarrow> number \<times> validation_issue list" where
  "authorCheck reference matched =
     (if length (authors reference) > 0 \<and> length (rd_authors matched) > 0
      then
        (let authorScore = compareAuthorLists (authors reference) (rd_authors matched) in
         (authorScore,
          if authorScore < AUTHOR_MATCH_THRESHOLD
          then [\<lparr>issue_type = author_mismatch,
                 severity = (if authorScore < 4 / 10 then sev_error else sev_warning),
                 message = msg_author_overlap (authorScore * 100),
                 expected = joinComma (authors reference),
                 found_text = joinComma (rd_authors matched)\<rparr>]
          else []))
      else (1, []))"

definition yearCheck :: "reference \<Rightarrow> retrieved_data \<Rightarrow> bool \<times> validation_issue list" where
  "yearCheck reference matched =
     (if truthy (year reference) \<and> truthy (rd_year matched)
      then (let refYear = parseInt (year reference);
                matchYear = parseInt (rd_year matched)
            in if \<not> isNaN refYear \<and> \<not> isNaN matchYear
               then (let yearDiff = mathAbs (subtract refYear matchYear) in
                     (lessEq yearDiff YEAR_TOLERANCE,
                      if greater yearDiff 0
                      then [\<lparr>issue_type = year_mismatch, severity = sev_warning,
                             message = msg_year_difference yearDiff,
                             expected = year reference, found_text = rd_year matched\<rparr>]
                      else []))
               else (True, []))
      else (True, []))"

definition decideStatus :: "number \<Rightarrow> number \<Rightarrow> bool \<Rightarrow> number \<Rightarrow> validation_status" where
  "decideStatus titleScore authorScore yearMatch bestScore =
     (if titleScore \<ge> TITLE_MATCH_THRESHOLD \<and> authorScore \<ge> AUTHOR_MATCH_THRESHOLD \<and> yearMatch
      then verified
      else if titleScore \<ge> TITLE_MATCH_THRESHOLD \<or> authorScore \<ge> AUTHOR_MATCH_THRESHOLD
      then (if titleScore \<ge> 5 / 10 \<or> authorScore \<ge> 5 / 10 then warning else error)
      else if bestScore > 5 / 10 then warning
      else error)"

text \<open>The part of \<open>analyzeResults\<close> from ``Calculate detailed similarity scores'' to the
  end; it is the same text in the api-only and in the staged orchestrator.\<close>

definition detailedAnalysis :: "reference \<Rightarrow> validation_source \<Rightarrow> retrieved_data \<Rightarrow> analysis" where
  "detailedAnalysis reference bestSource matched =
     (let t = titleCheck reference matched;
          a = authorCheck reference matched;
          y = yearCheck reference matched;
          confidence = fst t * (5 / 10) + fst a * (3 / 10) + (if fst y then 2 / 10 else 0)
      in \<lparr>a_status = decideStatus (fst t) (fst a) (fst y) (matchScore bestSource),
          a_issues = snd t @ snd a @ snd y,
          a_bestMatch = Some matched,
          a_confidence = confidence\<rparr>)"

definition unverifiedAnalysis :: "validation_issue list \<Rightarrow> analysis" where
  "unverifiedAnalysis iss =
     \<lparr>a_status = unverified, a_issues = iss, a_bestMatch = None, a_confidence = 0\<rparr>"

text \<open>\<open>analyzeResults\<close> of the api-only orchestrator.\<close>

definition analyzeResultsApiOnly :: "reference \<Rightarrow> validation_source list \<Rightarrow> analysis" where
  "analyzeResultsApiOnly reference srcs =
     (case sortByScore (foundSourcesOf srcs) of
        [] \<Rightarrow>
          unverifiedAnalysis
            [\<lparr>issue_type = not_found, severity = sev_warning,
              message = msg_not_found_in_any_database,
              expected = title reference, found_text = []\<rparr>]
      | bestSource # _ \<Rightarrow>
          (case retrievedData bestSource of
             None \<Rightarrow> unverifiedAnalysis []
           | Some matched \<Rightarrow> detailedAnalysis reference bestSource matched))"

text \<open>\<open>analyzeResults\<close> of the staged orchestrator, with its special case for a weak web
  search match.\<close>

definition isWeakWebMatch :: "validation_source \<Rightarrow> bool" where
  "isWeakWebMatch bestSource =
     (case confidence bestSource of
        None \<Rightarrow> False
      | Some c \<Rightarrow> name bestSource = web_search \<and> c > 0 \<and> c < WEB_SEARCH_CONFIDENCE_THRESHOLD)"

definition analyzeResults :: "reference \<Rightarrow> validation_source list \<Rightarrow> analysis" where
  "analyzeResults reference srcs =
     (case sortByScore (foundSourcesOf srcs) of
        [] \<Rightarrow> unverifiedAnalysis []
      | bestSource # _ \<Rightarrow>
          (case retrievedData bestSource of
             None \<Rightarrow> unverifiedAnalysis []
           | Some matched \<Rightarrow>
               if isWeakWebMatch bestSource
               then \<lparr>a_status = warning,
                     a_issues =
                       [\<lparr>issue_type = not_found, severity = sev_warning,
                         message = msg_web_possible_match (the (confidence bestSource) * 100),
                         expected = title reference, found_text = rd_title matched\<rparr>],
                     a_bestMatch = Some matched,
                     a_confidence = the (confidence bestSource)\<rparr>
               else detailedAnalysis reference bestSource matched))"

section \<open>Orchestrators\<close>

subsection \<open>Parallel API stage\<close>

definition tagStep :: "pipeline_step \<Rightarrow> validation_source \<Rightarrow> validation_source" where
  "tagStep st r = r\<lparr>step := Some st\<rparr>"

text \<open>The connectors that are switched on, in the order in which their promises are pushed.
  No connector rejects, so the \<open>catch\<close> handlers around them are never entered.\<close>

definition enabledConnectors :: "world \<Rightarrow> settings \<Rightarrow> reference \<Rightarrow> validation_source list" where
  "enabledConnectors w st reference =
     (if enableCrossRef st then [validateWithCrossRef w reference] else [])
     @ (if enableSemanticScholar st then [validateWithSemanticScholar w reference] else [])
     @ (if enableOpenAlex st then [validateWithOpenAlex w reference] else [])
     @ (if enableArxiv st then [validateWithArxiv w reference] else [])"

definition validateWithAPIAgent :: "world \<Rightarrow> settings \<Rightarrow> reference \<Rightarrow> validation_source list" where
  "validateWithAPIAgent w st reference = map (tagStep step_api) (enabledConnectors w st reference)"

subsection \<open>Query enhancement stage\<close>

definition enhancedReference :: "reference \<Rightarrow> enhanced_query \<Rightarrow> reference" where
  "enhancedReference reference q =
     reference\<lparr>title := (if truthy (q_title q) then q_title q else title reference),
               authors := (if length (q_authors q) > 0 then q_authors q else authors reference),
               year := (case q_year q of
                          None \<Rightarrow> year reference
                        | Some y \<Rightarrow> if truthy y then y else year reference)\<rparr>"

fun tryQueries :: "world \<Rightarrow> settings \<Rightarrow> reference \<Rightarrow> enhanced_query list \<Rightarrow> validation_source list" where
  "tryQueries w st reference [] = []"
| "tryQueries w st reference (q # qs) =
     (let results = map (tagStep step_query_enhanced)
                      (enabledConnectors w st (enhancedReference reference q))
      in if list_ex (\<lambda>r. found r \<and> matchScore r > 7 / 10) results then results
         else results @ tryQueries w st reference qs)"

definition retryAPIsWithEnhancedQueries ::
  "world \<Rightarrow> settings \<Rightarrow> reference \<Rightarrow> string + validation_source list" where
  "retryAPIsWithEnhancedQueries w st reference =
     (case enhanceQueriesWithLLM w reference of
        Inl msg \<Rightarrow> Inl msg
      | Inr enhancedQueries \<Rightarrow> Inr (tryQueries w st reference enhancedQueries))"

subsection \<open>Staged validation\<close>

text \<open>The staged orchestrator returns, next to its result, the list of the stage
  capabilities it has invoked, in order. A rejected promise is \<open>Inl\<close> the message.\<close>

datatype capability = api_agent | query_enhancement | web_search_agent

definition finish ::
  "world \<Rightarrow> reference \<Rightarrow> capability list \<Rightarrow> validation_source list \<Rightarrow>
   capability list \<times> (string + validation_result)" where
  "finish w reference calls allSources =
     (let a = analyzeResults reference allSources in
      case explanationFailure w reference (a_status a) of
        Some msg \<Rightarrow> (calls, Inl msg)
      | None \<Rightarrow>
          (calls,
           Inr \<lparr>referenceId = ref_id reference, status = a_status a, sources = allSources,
                issues = a_issues a, bestMatch = a_bestMatch a\<rparr>))"

definition strongMatch :: "validation_source list \<Rightarrow> bool" where
  "strongMatch srcs =
     (case findBestMatch srcs of
        None \<Rightarrow> False
      | Some m \<Rightarrow> matchScore m > 7 / 10)"

definition webSearchStage ::
  "world \<Rightarrow> reference \<Rightarrow> capability list \<Rightarrow> validation_source list \<Rightarrow>
   capability list \<times> (string + validation_result)" where
  "webSearchStage w reference calls allSources =
     (let webSearchResult = searchWebForReference w reference in
      finish w reference (calls @ [web_search_agent])
        (if found webSearchResult then allSources @ [webSearchResult] else allSources))"

definition validateReferenceWithAgents ::
  "world \<Rightarrow> settings \<Rightarrow> reference \<Rightarrow> capability list \<times> (string + validation_result)" where
  "validateReferenceWithAgents w st reference =
     (let apiSources = validateWithAPIAgent w st reference in
      if strongMatch apiSources then finish w reference [api_agent] apiSources
      else
        (case retryAPIsWithEnhancedQueries w st reference of
           Inl msg \<Rightarrow> ([api_agent, query_enhancement], Inl msg)
         | Inr enhancedSources \<Rightarrow>
             if strongMatch enhancedSources
             then finish w reference [api_agent, query_enhancement] (apiSources @ enhancedSources)
             else webSearchStage w reference [api_agent, query_enhancement]
                    (apiSources @ enhancedSources)))"

subsection \<open>Api-only validation and the loop over all references\<close>















section \<open>Reference parser\<close>

subsection \<open>Regular expressions\<close>

text \<open>
  The patterns of the parser are values of a small type of regular expressions, with the
  constructs the patterns use: a class of characters, sequence, alternative, the greedy and
  the lazy star, a numbered group, the two lookaheads, the anchors \<open>^\<close> and \<open>$\<close>, and \<open>\b\<close>.
\<close>

datatype rx =
    Cls "char \<Rightarrow> bool"
  | Eps
  | Seq rx rx
  | Alt rx rx
  | Star rx
  | StarLazy rx
  | Group nat rx
  | Look rx
  | NotLook rx
  | Bol
  | Eol
  | WordBoundary

text \<open>The state of a match: the index in the text, the character before it, the text from
  it on, and the groups captured so far (the latest first).\<close>

datatype mstate =
  MState (m_pos: nat) (m_prev: "char option") (m_rest: string) (m_caps: "(nat \<times> string) list")

definition atWordBoundary :: "mstate \<Rightarrow> bool" where
  "atWordBoundary s =
     (let before = (case m_prev s of None \<Rightarrow> False | Some c \<Rightarrow> isWordChar c);
          after = (case m_rest s of [] \<Rightarrow> False | c # _ \<Rightarrow> isWordChar c)
      in if before then (if after then False else True) else after)"

definition capture :: "nat \<Rightarrow> mstate \<Rightarrow> mstate \<Rightarrow> mstate" where
  "capture n s e =
     MState (m_pos e) (m_prev e) (m_rest e) ((n, take (m_pos e - m_pos s) (m_rest s)) # m_caps e)"

text \<open>
  \<open>matchRx r s\<close> lists the states in which a match of \<open>r\<close> that starts in \<open>s\<close> can end, in
  the order in which a backtracking matcher tries them: the first alternative before the
  second, one more round of a greedy star before leaving it, and leaving a lazy star before
  one more round. A round of a star that consumes nothing is not taken.
\<close>

function (sequential) matchRx :: "rx \<Rightarrow> mstate \<Rightarrow> mstate list" where
  "matchRx (Cls p) s =
     (case m_rest s of
        [] \<Rightarrow> []
      | c # cs \<Rightarrow> if p c then [MState (m_pos s + 1) (Some c) cs (m_caps s)] else [])"
| "matchRx Eps s = [s]"
| "matchRx (Seq a b) s = concat (map (matchRx b) (matchRx a s))"
| "matchRx (Alt a b) s = matchRx a s @ matchRx b s"
| "matchRx (Star r) s =
     concat (map (\<lambda>e. if length (m_rest e) < length (m_rest s) then matchRx (Star r) e else [])
               (matchRx r s))
     @ [s]"
| "matchRx (StarLazy r) s =
     s # concat (map (\<lambda>e. if length (m_rest e) < length (m_rest s)
                            then matchRx (StarLazy r) e else [])
                   (matchRx r s))"
| "matchRx (Group n r) s = map (capture n s) (matchRx r s)"
| "matchRx (Look r) s = (case matchRx r s of [] \<Rightarrow> [] | e # _ \<Rightarrow> [s])"
| "matchRx (NotLook r) s = (case matchRx r s of [] \<Rightarrow> [s] | e # _ \<Rightarrow> [])"
| "matchRx Bol s = (if m_pos s = 0 then [s] else [])"
| "matchRx Eol s = (if m_rest s = [] then [s] else [])"
| "matchRx WordBoundary s = (if atWordBoundary s then [s] else [])"
  by pat_completeness auto
termination
  by (relation "measures [\<lambda>(r, s). size r, \<lambda>(r, s). length (m_rest s)]") auto

declare matchRx.simps [simp del]

text \<open>A match as \<open>exec\<close> returns it: its index, its text, its groups, and the state after
  it.\<close>

record rmatch =
  mt_index :: nat
  mt_text :: string
  mt_groups :: "(nat \<times> string) list"
  mt_end :: mstate

text \<open>The first match that starts at index \<open>i\<close>, and the first match at or after it.\<close>

definition matchAt :: "rx \<Rightarrow> nat \<Rightarrow> char option \<Rightarrow> string \<Rightarrow> rmatch option" where
  "matchAt r i pv rest =
     (case matchRx r (MState i pv rest []) of
        [] \<Rightarrow> None
      | e # _ \<Rightarrow>
          Some \<lparr>mt_index = i, mt_text = take (m_pos e - i) rest, mt_groups = m_caps e,
                mt_end = e\<rparr>)"

fun searchRx :: "rx \<Rightarrow> nat \<Rightarrow> char option \<Rightarrow> string \<Rightarrow> rmatch option" where
  "searchRx r i pv [] = matchAt r i pv []"
| "searchRx r i pv (c # cs) =
     (case matchAt r i pv (c # cs) of
        Some m \<Rightarrow> Some m
      | None \<Rightarrow> searchRx r (i + 1) (Some c) cs)"

text \<open>
  The loop \<open>while ((match = pattern.exec(text)) !== null)\<close> of a pattern with the flag
  \<open>g\<close>: every search starts where the last match ended. After an empty match the next
  search finds the same match again and the loop does not end: that is the result \<open>None\<close>.
\<close>

function execAll :: "rx \<Rightarrow> nat \<Rightarrow> char option \<Rightarrow> string \<Rightarrow> rmatch list option" where
  "execAll r i pv rest =
     (case searchRx r i pv rest of
        None \<Rightarrow> Some []
      | Some m \<Rightarrow>
          if length (m_rest (mt_end m)) < length rest
          then map_option (Cons m)
                 (execAll r (m_pos (mt_end m)) (m_prev (mt_end m)) (m_rest (mt_end m)))
          else None)"
  by pat_completeness auto
termination
  by (relation "measure (\<lambda>(r, i, pv, rest). length rest)") auto

declare execAll.simps [simp del]

subsection \<open>Notation for patterns\<close>

definition oneOrMore :: "rx \<Rightarrow> rx" where
  "oneOrMore r = Seq r (Star r)"

definition optional :: "rx \<Rightarrow> rx" where
  "optional r = Alt r Eps"

definition exactly :: "char \<Rightarrow> rx" where
  "exactly c = Cls (\<lambda>x. x = c)"

definition oneOf :: "string \<Rightarrow> rx" where
  "oneOf cs = Cls (\<lambda>x. x \<in> set cs)"

definition noneOf :: "string \<Rightarrow> rx" where
  "noneOf cs = Cls (\<lambda>x. x \<notin> set cs)"

definition anyChar :: rx where
  "anyChar = Cls (\<lambda>x. True)"

definition digits :: rx where
  "digits = oneOrMore (Cls isDigit)"

definition spaces :: rx where
  "spaces = oneOrMore (Cls isSpace)"

definition optSpaces :: rx where
  "optSpaces = Star (Cls isSpace)"

fun seqs :: "rx list \<Rightarrow> rx" where
  "seqs [] = Eps"
| "seqs [r] = r"
| "seqs (r # rs) = Seq r (seqs rs)"

text \<open>A literal word, and the same under the flag \<open>i\<close> (the word is given in lower case).\<close>

definition lit :: "string \<Rightarrow> rx" where
  "lit w = seqs (map exactly w)"

definition litCI :: "string \<Rightarrow> rx" where
  "litCI w = seqs (map (\<lambda>c. Cls (\<lambda>x. toLowerChar x = c)) w)"

subsection \<open>Searching, replacing, splitting\<close>

definition groupText :: "rmatch \<Rightarrow> nat \<Rightarrow> string option" where
  "groupText m n = map_of (mt_groups m) n"

definition groupOr :: "rmatch \<Rightarrow> nat \<Rightarrow> string" where
  "groupOr m n = (case groupText m n of None \<Rightarrow> [] | Some g \<Rightarrow> g)"

definition matchEnd :: "rmatch \<Rightarrow> nat" where
  "matchEnd m = m_pos (mt_end m)"

text \<open>\<open>r.test(s)\<close> and \<open>s.match(r)\<close> for a pattern without the flag \<open>g\<close>.\<close>

definition firstMatch :: "rx \<Rightarrow> string \<Rightarrow> rmatch option" where
  "firstMatch r s = searchRx r 0 None s"

definition testRx :: "rx \<Rightarrow> string \<Rightarrow> bool" where
  "testRx r s = (case firstMatch r s of None \<Rightarrow> False | Some m \<Rightarrow> True)"

text \<open>\<open>s.matchAll(r)\<close>: after an empty match the search moves on by one character. The
  tests on the lengths hold in every run and make the recursion terminate.\<close>

function matchAllRx :: "rx \<Rightarrow> nat \<Rightarrow> char option \<Rightarrow> string \<Rightarrow> rmatch list" where
  "matchAllRx r i pv rest =
     (case searchRx r i pv rest of
        None \<Rightarrow> []
      | Some m \<Rightarrow>
          if mt_text m = []
          then (case m_rest (mt_end m) of
                  [] \<Rightarrow> [m]
                | c # cs \<Rightarrow>
                    if length cs < length rest
                    then m # matchAllRx r (matchEnd m + 1) (Some c) cs
                    else [m])
          else if length (m_rest (mt_end m)) < length rest
          then m # matchAllRx r (matchEnd m) (m_prev (mt_end m)) (m_rest (mt_end m))
          else [m])"
  by pat_completeness auto
termination
  by (relation "measure (\<lambda>(r, i, pv, rest). length rest)") auto

declare matchAllRx.simps [simp del]

text \<open>\<open>s.replace(r, f)\<close> for a pattern without the flag \<open>g\<close>, and with it.\<close>

definition replaceFirst :: "rx \<Rightarrow> (rmatch \<Rightarrow> string) \<Rightarrow> string \<Rightarrow> string" where
  "replaceFirst r f s =
     (case firstMatch r s of
        None \<Rightarrow> s
      | Some m \<Rightarrow> take (mt_index m) s @ f m @ drop (matchEnd m) s)"

fun rebuild :: "string \<Rightarrow> nat \<Rightarrow> (rmatch \<Rightarrow> string) \<Rightarrow> rmatch list \<Rightarrow> string" where
  "rebuild s p f [] = drop p s"
| "rebuild s p f (m # ms) =
     take (mt_index m - p) (drop p s) @ f m @ rebuild s (matchEnd m) f ms"

definition replaceAll :: "rx \<Rightarrow> (rmatch \<Rightarrow> string) \<Rightarrow> string \<Rightarrow> string" where
  "replaceAll r f s = rebuild s 0 f (matchAllRx r 0 None s)"

definition removeMatch :: "rmatch \<Rightarrow> string" where
  "removeMatch m = []"

text \<open>\<open>s.split(r)\<close> for a separator pattern that matches no empty string: the parts between
  the matches.\<close>

fun partsBetween :: "string \<Rightarrow> nat \<Rightarrow> rmatch list \<Rightarrow> string list" where
  "partsBetween s p [] = [drop p s]"
| "partsBetween s p (m # ms) =
     take (mt_index m - p) (drop p s) # partsBetween s (matchEnd m) ms"

definition splitRx :: "rx \<Rightarrow> string \<Rightarrow> string list" where
  "splitRx r s = partsBetween s 0 (matchAllRx r 0 None s)"

text \<open>\<open>s.indexOf(n, from)\<close>, \<open>s.substring(a, b)\<close> for \<open>a \<le> b\<close>, and \<open>s.split(sep)\<close> for a
  separator string that is not empty.\<close>

fun indexOfAt :: "string \<Rightarrow> string \<Rightarrow> nat \<Rightarrow> nat option" where
  "indexOfAt [] n i = (if n = [] then Some i else None)"
| "indexOfAt (c # cs) n i = (if startsWith (c # cs) n then Some i else indexOfAt cs n (i + 1))"

definition indexOfFrom :: "string \<Rightarrow> string \<Rightarrow> nat \<Rightarrow> nat option" where
  "indexOfFrom s n from = indexOfAt (drop from s) n (min from (length s))"

definition indexOf :: "string \<Rightarrow> string \<Rightarrow> nat option" where
  "indexOf s n = indexOfFrom s n 0"

definition substring :: "string \<Rightarrow> nat \<Rightarrow> nat \<Rightarrow> string" where
  "substring s a b = take (b - a) (drop a s)"

function splitStrFrom :: "string \<Rightarrow> string \<Rightarrow> string \<Rightarrow> string list" where
  "splitStrFrom sep cur [] = [rev cur]"
| "splitStrFrom sep cur (c # cs) =
     (if startsWith (c # cs) sep
      then rev cur # splitStrFrom sep [] (drop (length sep - 1) cs)
      else splitStrFrom sep (c # cur) cs)"
  by pat_completeness auto
termination
  by (relation "measure (\<lambda>(sep, cur, s). length s)") auto

definition splitStr :: "string \<Rightarrow> string \<Rightarrow> string list" where
  "splitStr sep s = splitStrFrom sep [] s"

text \<open>\<open>lo <= n && n <= hi\<close>\<close>

definition inRange :: "jsnumber \<Rightarrow> int \<Rightarrow> int \<Rightarrow> bool" where
  "inRange n lo hi = (greaterEq n lo \<and> lessEq n hi)"

subsection \<open>The patterns of the parser\<close>

text \<open>\<open>/\[(\d+)\]\s*([^[\n]+(?:\n(?!\s*\[\d+\])[^[\n]+)*)/g\<close>\<close>

definition BRACKETED_REF_PATTERN :: rx where
  "BRACKETED_REF_PATTERN =
     seqs [exactly CHR ''['', Group 1 digits, exactly CHR '']'', optSpaces,
           Group 2
             (Seq (oneOrMore (noneOf [CHR ''['', CHR 0x0A]))
                  (Star (seqs [exactly (CHR 0x0A),
                               NotLook (seqs [optSpaces, exactly CHR ''['', digits, exactly CHR '']'']),
                               oneOrMore (noneOf [CHR ''['', CHR 0x0A])])))]"

text \<open>\<open>/\b(19|20)\d{2}[a-z]?\b/g\<close>\<close>

definition YEAR_PATTERN :: rx where
  "YEAR_PATTERN =
     seqs [WordBoundary, Group 1 (Alt (lit ''19'') (lit ''20'')), Cls isDigit, Cls isDigit,
           optional (Cls isLowerAZ), WordBoundary]"

text \<open>\<open>/"([^"]+)"|'([^']+)'/\<close>: in the source the two character classes repeat the
  straight quote.\<close>

definition QUOTED_TITLE_PATTERN :: rx where
  "QUOTED_TITLE_PATTERN =
     Alt (seqs [exactly (CHR 0x22), Group 1 (oneOrMore (noneOf [CHR 0x22])), exactly (CHR 0x22)])
         (seqs [exactly (CHR 0x27), Group 2 (oneOrMore (noneOf [CHR 0x27])), exactly (CHR 0x27)])"

text \<open>\<open>/([a-z])-\s*\n\s*([a-z])/gi\<close>\<close>

definition hyphenBreakPattern :: rx where
  "hyphenBreakPattern =
     seqs [Group 1 (Cls isLetter), exactly CHR ''-'', optSpaces, exactly (CHR 0x0A), optSpaces,
           Group 2 (Cls isLetter)]"

text \<open>\<open>/(?:^|\s)(\d+)\s*(?=[A-Za-z])/g\<close>\<close>

definition twoColumnPattern :: rx where
  "twoColumnPattern =
     seqs [Alt Bol (Cls isSpace), Group 1 digits, optSpaces, Look (Cls isLetter)]"

text \<open>\<open>/(?:^|\s)(\d+)\.\s+([A-Z][^]*?)(?=\s+\d+\.\s+[A-Z]|$)/g\<close>\<close>

definition periodPattern :: rx where
  "periodPattern =
     seqs [Alt Bol (Cls isSpace), Group 1 digits, exactly CHR ''.'', spaces,
           Group 2 (Seq (Cls isUpperAZ) (StarLazy anyChar)),
           Look (Alt (seqs [spaces, digits, exactly CHR ''.'', spaces, Cls isUpperAZ]) Eol)]"

text \<open>\<open>/(?:^|\s)(\d+)[\.\)]\s+([A-Z])|(?:^|\s)\[(\d+)\]\s+/g\<close>\<close>

definition fallbackPattern :: rx where
  "fallbackPattern =
     Alt (seqs [Alt Bol (Cls isSpace), Group 1 digits, oneOf ''.)'', spaces,
                Group 2 (Cls isUpperAZ)])
         (seqs [Alt Bol (Cls isSpace), exactly CHR ''['', Group 3 digits, exactly CHR '']'', spaces])"

text \<open>\<open>/\s(\d+)(?=\s*[A-Z])/g\<close>\<close>

definition sequentialPattern :: rx where
  "sequentialPattern =
     seqs [Cls isSpace, Group 1 digits, Look (Seq optSpaces (Cls isUpperAZ))]"

text \<open>\<open>/^\d+\s*/\<close> and \<open>/^(\d+[\.\)]|\[\d+\])\s*/\<close>\<close>

definition leadingNumberPattern :: rx where
  "leadingNumberPattern = seqs [Bol, digits, optSpaces]"

definition leadingLabelPattern :: rx where
  "leadingLabelPattern =
     seqs [Bol,
           Group 1 (Alt (Seq digits (oneOf ''.)''))
                        (seqs [exactly CHR ''['', digits, exactly CHR '']''])),
           optSpaces]"

subsection \<open>Fields of one entry\<close>

text \<open>The parsed entry, with the fields the strategies and the properties below read. The
  identifier, the venue, the DOI and the URLs of an entry are not modelled.\<close>

record parsed_reference =
  p_raw_text :: string
  p_title :: string
  p_authors :: "string list"
  p_year :: string
  p_page_number :: int
  p_citation_number :: jsnumber
  p_relativeIndex :: nat

text \<open>The year: the last match of the year pattern whose number is between 1900 and 2099.\<close>

definition dropTrailingLetter :: "string \<Rightarrow> string" where
  "dropTrailingLetter y = replaceFirst (seqs [Cls isLowerAZ, Eol]) removeMatch y"

definition extractYear :: "string \<Rightarrow> string" where
  "extractYear cleanText =
     (let plausibleYears =
            filter (\<lambda>y. inRange (parseInt10 (dropTrailingLetter y)) 1900 2099)
              (map mt_text (matchAllRx YEAR_PATTERN 0 None cleanText))
      in if length plausibleYears > 0 then last plausibleYears else [])"

text \<open>The title.\<close>

definition looksLikeTitle :: "string \<Rightarrow> bool" where
  "looksLikeTitle potentialTitle =
     (truthy potentialTitle
      \<and> length potentialTitle > 10
      \<and> length potentialTitle < 300
      \<and> testRx (seqs [Bol, Cls isUpperAZ]) potentialTitle
      \<and> \<not> testRx (seqs [Bol, digits]) potentialTitle
      \<and> \<not> testRx (seqs [Bol, litCI ''accessed'', Cls isSpace]) potentialTitle
      \<and> \<not> testRx (seqs [Bol, lit ''http'', optional (exactly CHR ''s''), exactly CHR '':'']) potentialTitle
      \<and> \<not> testRx (seqs [Bol, lit ''arXiv'']) potentialTitle
      \<and> \<not> testRx (seqs [Bol, litCI ''in'', spaces]) potentialTitle
      \<and> \<not> testRx (seqs [Bol, litCI ''proceedings'']) potentialTitle)"

definition looksLikeSegment :: "string \<Rightarrow> bool" where
  "looksLikeSegment potentialTitle =
     (\<not> testRx (seqs [Bol, Cls isUpperAZ, oneOrMore (Cls isLowerAZ), exactly CHR '','', optSpaces,
                       Cls isUpperAZ, optional (Cls isUpperAZ), exactly CHR ''.'']) potentialTitle
      \<and> \<not> testRx (seqs [Bol, litCI ''in'', spaces]) potentialTitle
      \<and> \<not> testRx (seqs [Bol, litCI ''proceedings'']) potentialTitle
      \<and> \<not> testRx (seqs [Bol, litCI ''arxiv'']) potentialTitle
      \<and> length potentialTitle > 10
      \<and> length potentialTitle < 300)"

definition quotedTitle :: "string \<Rightarrow> string option" where
  "quotedTitle text =
     (case firstMatch QUOTED_TITLE_PATTERN text of
        None \<Rightarrow> None
      | Some quotedMatch \<Rightarrow>
          (let t = (if truthy (groupOr quotedMatch 1) then groupOr quotedMatch 1
                    else groupOr quotedMatch 2)
           in if length t > 5 then Some (trim t) else None))"

definition sentenceTitle :: "string \<Rightarrow> string option" where
  "sentenceTitle text =
     (case splitRx (seqs [exactly CHR ''.'', spaces]) text of
        s0 # potentialTitle # _ \<Rightarrow>
          if looksLikeTitle potentialTitle then Some (trim potentialTitle) else None
      | _ \<Rightarrow> None)"

definition segmentTitle :: "string \<Rightarrow> string option" where
  "segmentTitle text =
     (case firstMatch (seqs [Cls isUpperAZ, Star (noneOf ''.!?''),
                             Alt (exactly CHR '':'') (oneOf ''.!?'')]) text of
        None \<Rightarrow> None
      | Some titleMatch \<Rightarrow>
          if looksLikeSegment (mt_text titleMatch)
          then Some (trim (replaceFirst (seqs [oneOf ''.!?:'', Eol]) removeMatch
                             (mt_text titleMatch)))
          else None)"

definition extractTitle :: "string \<Rightarrow> string" where
  "extractTitle text =
     (case quotedTitle text of
        Some t \<Rightarrow> t
      | None \<Rightarrow>
          (case sentenceTitle text of
             Some t \<Rightarrow> t
           | None \<Rightarrow>
               (case segmentTitle text of
                  Some t \<Rightarrow> t
                | None \<Rightarrow> [])))"

text \<open>The authors.\<close>

definition isEtAl :: "string \<Rightarrow> bool" where
  "isEtAl a =
     testRx (seqs [Bol, litCI ''et'', optSpaces, litCI ''al'', optional (exactly CHR ''.''), Eol]) a"

definition parseAuthors :: "string \<Rightarrow> string list" where
  "parseAuthors authorString =
     filter (\<lambda>a. length a > 0 \<and> \<not> isEtAl a)
       (map trim
         (foldl (\<lambda>as sep. concat (map (splitStr sep) as)) [authorString]
            [''; '', '', and '', '' and '', '', '', '';'']))"

definition textBeforeTitleOrYear :: "string \<Rightarrow> string \<Rightarrow> string \<Rightarrow> string" where
  "textBeforeTitleOrYear text ttl yr =
     (if truthy ttl \<and> includesStr text ttl
      then (case indexOf text ttl of None \<Rightarrow> text | Some titleIndex \<Rightarrow> substring text 0 titleIndex)
      else if truthy yr
      then (case indexOf text yr of
              None \<Rightarrow> text
            | Some yearIndex \<Rightarrow> if yearIndex > 0 then substring text 0 yearIndex else text)
      else text)"

definition textBeforeQuote :: "string \<Rightarrow> string \<Rightarrow> string" where
  "textBeforeQuote text authorText =
     (case indexOf text [CHR 0x22] of
        None \<Rightarrow> authorText
      | Some firstQuoteIndex \<Rightarrow>
          if firstQuoteIndex > 0 \<and> 2 * firstQuoteIndex < length text
          then (let beforeQuote = substring text 0 firstQuoteIndex in
                if testRx (seqs [Cls (\<lambda>c. c = CHR '','' \<or> isSpace c), litCI ''and'', Cls isSpace])
                     beforeQuote
                   \<or> length (splitOn CHR '','' beforeQuote) > 1
                then beforeQuote else authorText)
          else authorText)"

definition cleanAuthorText :: "string \<Rightarrow> string" where
  "cleanAuthorText authorText =
     trim (replaceFirst leadingNumberPattern removeMatch
            (replaceFirst (seqs [exactly CHR ''.'', optSpaces, Eol]) removeMatch
              (filter (\<lambda>c. c \<noteq> CHR 0x22)
                (replaceFirst QUOTED_TITLE_PATTERN removeMatch authorText))))"

definition extractAuthorsFromReference :: "string \<Rightarrow> string \<Rightarrow> string \<Rightarrow> string list" where
  "extractAuthorsFromReference text ttl yr =
     take 10 (parseAuthors
       (cleanAuthorText (textBeforeQuote text (textBeforeTitleOrYear text ttl yr))))"

definition parseReferenceText :: "string \<Rightarrow> jsnumber \<Rightarrow> int \<Rightarrow> nat \<Rightarrow> parsed_reference" where
  "parseReferenceText text citationNumber pageNumber relativeIndex =
     (let cleanText = trim (collapseSpaces text);
          yr = extractYear cleanText;
          ttl = extractTitle cleanText
      in \<lparr>p_raw_text = cleanText, p_title = ttl,
          p_authors = extractAuthorsFromReference cleanText ttl yr, p_year = yr,
          p_page_number = pageNumber, p_citation_number = citationNumber,
          p_relativeIndex = relativeIndex\<rparr>)"

text \<open>\<open>reference.title || reference.authors.length > 0\<close>\<close>

definition meaningful :: "parsed_reference \<Rightarrow> bool" where
  "meaningful reference = (truthy (p_title reference) \<or> length (p_authors reference) > 0)"

subsection \<open>The strategies\<close>

text \<open>Step 3 of the normalisation replaces code units above 255 only and changes no string
  of the model.\<close>

definition normalizeBibliographyText :: "string \<Rightarrow> string" where
  "normalizeBibliographyText text =
     trim (collapseSpaces (collapseSpaces
       (replaceAll hyphenBreakPattern (\<lambda>m. groupOr m 1 @ groupOr m 2) text)))"

definition bracketedEntry :: "int \<Rightarrow> rmatch \<Rightarrow> parsed_reference" where
  "bracketedEntry startPage m =
     parseReferenceText (trim (groupOr m 2)) (parseInt10 (groupOr m 1)) startPage (mt_index m)"

definition extractBracketedReferences :: "string \<Rightarrow> int \<Rightarrow> parsed_reference list option" where
  "extractBracketedReferences text startPage =
     map_option (map (bracketedEntry startPage)) (execAll BRACKETED_REF_PATTERN 0 None text)"

definition periodEntry :: "int \<Rightarrow> rmatch \<Rightarrow> parsed_reference list" where
  "periodEntry startPage m =
     (let citationNumber = parseInt10 (groupOr m 1);
          refText = trim (groupOr m 2)
      in if length refText < 20 then []
         else if inRange citationNumber 1 1000
         then (let reference = parseReferenceText refText citationNumber startPage (mt_index m)
               in if meaningful reference then [reference] else [])
         else [])"

definition extractPeriodNumberedReferences :: "string \<Rightarrow> int \<Rightarrow> parsed_reference list option" where
  "extractPeriodNumberedReferences text startPage =
     map_option (\<lambda>ms. concat (map (periodEntry startPage) ms))
       (execAll periodPattern 0 None text)"

text \<open>A detected number is kept as \<open>(number, index)\<close>. A number that passes the test of its
  range is finite, and is kept as an integer.\<close>

definition charAtOr :: "string \<Rightarrow> nat \<Rightarrow> char" where
  "charAtOr text i = (if i < length text then text ! i else CHR '' '')"

definition twoColumnCandidate :: "string \<Rightarrow> rmatch \<Rightarrow> (int \<times> nat) list" where
  "twoColumnCandidate text m =
     (case parseInt10 (groupOr m 1) of
        Finite num \<Rightarrow>
          if 1 \<le> num \<and> num \<le> 100
          then (let matchStart = mt_index m;
                    matchEnd = matchStart + length (mt_text m);
                    numberStartInMatch = length (takeWhile (\<lambda>c. \<not> isDigit c) (mt_text m));
                    actualNumberStart = matchStart + numberStartInMatch;
                    charBeforeNumber = (if actualNumberStart > 0
                                        then charAtOr text (actualNumberStart - 1) else CHR '' '');
                    charAfterNumber = charAtOr text matchEnd
                in if isDigit charBeforeNumber \<or> isDigit charAfterNumber then []
                   else [(num, matchStart)])
          else []
      | _ \<Rightarrow> [])"

fun filterSequential :: "int \<Rightarrow> (int \<times> nat) list \<Rightarrow> (int \<times> nat) list" where
  "filterSequential lastAcceptedNumber [] = []"
| "filterSequential lastAcceptedNumber (m # ms) =
     (if fst m \<ge> lastAcceptedNumber + 1 \<and> fst m \<le> lastAcceptedNumber + 3
      then m # filterSequential (fst m) ms
      else filterSequential lastAcceptedNumber ms)"

text \<open>The loop that slices the text at the accepted boundaries; \<open>label\<close> gives the citation
  number of entry \<open>i\<close> and \<open>strip\<close> is the pattern of the leading number.\<close>

fun sliceEntries ::
  "string \<Rightarrow> int \<Rightarrow> rx \<Rightarrow> (nat \<Rightarrow> int \<times> nat \<Rightarrow> int) \<Rightarrow> nat \<Rightarrow> (int \<times> nat) list \<Rightarrow>
   parsed_reference list" where
  "sliceEntries text startPage strip label i [] = []"
| "sliceEntries text startPage strip label i (m # ms) =
     (let startIdx = snd m;
          endIdx = (case ms of [] \<Rightarrow> length text | n # _ \<Rightarrow> snd n);
          refText = trim (replaceFirst strip removeMatch (trim (substring text startIdx endIdx)))
      in (if length refText \<ge> 20
          then (let reference = parseReferenceText refText (Finite (label i m)) startPage startIdx
                in if meaningful reference then [reference] else [])
          else [])
         @ sliceEntries text startPage strip label (i + 1) ms)"

fun renumber :: "nat \<Rightarrow> parsed_reference list \<Rightarrow> parsed_reference list" where
  "renumber i [] = []"
| "renumber i (r # rs) = r\<lparr>p_citation_number := Finite (int i + 1)\<rparr> # renumber (i + 1) rs"

definition extractTwoColumnReferences :: "string \<Rightarrow> int \<Rightarrow> parsed_reference list option" where
  "extractTwoColumnReferences text startPage =
     map_option
       (\<lambda>ms. let matches = sort_key snd (concat (map (twoColumnCandidate text) ms));
                  filteredMatches = filterSequential 0 matches;
                  results = (if length filteredMatches \<ge> 3
                             then sliceEntries text startPage leadingNumberPattern
                                    (\<lambda>i m. int i + 1) 0 filteredMatches
                             else [])
              in renumber 0 results)
       (execAll twoColumnPattern 0 None text)"

text \<open>The author-year strategy: \<open>text.split(/\n\n+/)\<close> and a loop with the index of the
  entry and \<open>currentIndex\<close>.\<close>

fun authorYearEntries ::
  "string \<Rightarrow> int \<Rightarrow> nat \<Rightarrow> nat \<Rightarrow> string list \<Rightarrow> parsed_reference list" where
  "authorYearEntries text startPage index currentIndex [] = []"
| "authorYearEntries text startPage index currentIndex (entry # rest) =
     (let trimmed = trim entry in
      if length trimmed > 50
      then (case indexOfFrom text trimmed currentIndex of
              None \<Rightarrow> authorYearEntries text startPage (index + 1) currentIndex rest
            | Some entryIndex \<Rightarrow>
                (let reference = parseReferenceText trimmed (Finite (int index + 1)) startPage
                                   entryIndex
                 in (if meaningful reference then [reference] else [])
                    @ authorYearEntries text startPage (index + 1)
                        (entryIndex + length trimmed) rest))
      else authorYearEntries text startPage (index + 1) currentIndex rest)"

definition extractAuthorYearReferences :: "string \<Rightarrow> int \<Rightarrow> parsed_reference list" where
  "extractAuthorYearReferences text startPage =
     authorYearEntries text startPage 0 0
       (splitRx (seqs [exactly (CHR 0x0A), oneOrMore (exactly (CHR 0x0A))]) text)"

text \<open>The fallback strategy.\<close>

definition fallbackCandidate :: "rmatch \<Rightarrow> (int \<times> nat) list" where
  "fallbackCandidate m =
     (case (if truthy (groupOr m 1) then parseInt10 (groupOr m 1)
            else parseInt10 (groupOr m 3)) of
        Finite num \<Rightarrow> if 1 \<le> num \<and> num \<le> 1000 then [(num, mt_index m)] else []
      | _ \<Rightarrow> [])"

definition sequentialCandidate :: "rmatch \<Rightarrow> (int \<times> nat) list" where
  "sequentialCandidate m =
     (case parseInt10 (groupOr m 1) of
        Finite num \<Rightarrow> if 1 \<le> num \<and> num \<le> 100 then [(num, mt_index m + 1)] else []
      | _ \<Rightarrow> [])"

definition extractFallbackReferences :: "string \<Rightarrow> int \<Rightarrow> parsed_reference list option" where
  "extractFallbackReferences text startPage =
     (case execAll fallbackPattern 0 None text of
        None \<Rightarrow> None
      | Some ms \<Rightarrow>
          (let matches = concat (map fallbackCandidate ms) in
           if length matches \<ge> 3
           then Some (sliceEntries text startPage leadingLabelPattern (\<lambda>i m. fst m) 0
                        (sort_key snd matches))
           else (case execAll sequentialPattern 0 None text of
                   None \<Rightarrow> None
                 | Some sms \<Rightarrow>
                     (let seqMatches = concat (map sequentialCandidate sms) in
                      if length seqMatches \<ge> 3
                      then Some (sliceEntries text startPage leadingNumberPattern
                                   (\<lambda>i m. fst m) 0 (sort_key snd seqMatches))
                      else Some []))))"

subsection \<open>The cascade\<close>

text \<open>A result \<open>None\<close> stands for a \<open>while\<close> loop over the matches of a pattern that does not
  end.\<close>

definition extractReferencesWithRegex :: "string \<Rightarrow> int \<Rightarrow> parsed_reference list option" where
  "extractReferencesWithRegex bibliographyText startPage =
     (let normalizedText = normalizeBibliographyText bibliographyText in
      case extractBracketedReferences normalizedText startPage of
        None \<Rightarrow> None
      | Some bracketedRefs \<Rightarrow>
          if length bracketedRefs \<ge> 3 then Some bracketedRefs
          else
            (case extractTwoColumnReferences normalizedText startPage of
               None \<Rightarrow> None
             | Some twoColumnRefs \<Rightarrow>
                 if length twoColumnRefs \<ge> 3 then Some twoColumnRefs
                 else
                   (case extractPeriodNumberedReferences normalizedText startPage of
                      None \<Rightarrow> None
                    | Some periodRefs \<Rightarrow>
                        if length periodRefs \<ge> 3 then Some periodRefs
                        else
                          (let authorYearRefs =
                                 extractAuthorYearReferences normalizedText startPage
                           in if length authorYearRefs \<ge> 3 then Some authorYearRefs
                              else extractFallbackReferences normalizedText startPage))))"

subsection \<open>Patterns that match no empty string\<close>

text \<open>A sufficient condition, read off the pattern, for every match of it to consume at
  least one character. It is used to show that the loops over the matches of the parser's
  patterns end.\<close>

fun consumes :: "rx \<Rightarrow> bool" where
  "consumes (Cls p) = True"
| "consumes (Seq a b) = (consumes a \<or> consumes b)"
| "consumes (Alt a b) = (consumes a \<and> consumes b)"
| "consumes (Group n r) = consumes r"
| "consumes r = False"

section \<open>Statements of the specification\<close>

text \<open>
  The definitions of this section are not taken from the code. Each one writes a sentence of
  the specification down as it is worded, to be compared with the function of the code.
\<close>

text \<open>``\<open>overlap = |intersection| / min(|A|,|B|)\<close>'', with \<open>A\<close> and \<open>B\<close> the two author
  lists and the intersection taken between their sets of last names.\<close>

definition authorListOverlapSpec :: "string list \<Rightarrow> string list \<Rightarrow> number" where
  "authorListOverlapSpec A B =
     (if A = [] \<or> B = [] then 0
      else of_nat (card (set (map extractLastName A) \<inter> set (map extractLastName B)))
           / of_nat (min (length A) (length B)))"

text \<open>``Status decision (evaluated in this order)'': the four rules.\<close>

definition statusBySpec :: "number \<Rightarrow> number \<Rightarrow> bool \<Rightarrow> number \<Rightarrow> validation_status" where
  "statusBySpec titleScore authorScore yearMatch bestScore =
     (if titleScore \<ge> 70 / 100 \<and> authorScore \<ge> 60 / 100 \<and> yearMatch then verified
      else if titleScore \<ge> 70 / 100 \<or> authorScore \<ge> 60 / 100
      then (if titleScore \<ge> 5 / 10 \<or> authorScore \<ge> 5 / 10 then warning else error)
      else if bestScore > 5 / 10 then warning
      else error)"

text \<open>``\<open>confidence = 0.5\<cdot>titleScore + 0.3\<cdot>authorScore + 0.2\<cdot>(yearMatch?1:0)\<close>''\<close>

definition confidenceBySpec :: "number \<Rightarrow> number \<Rightarrow> bool \<Rightarrow> number" where
  "confidenceBySpec titleScore authorScore yearMatch =
     5 / 10 * titleScore + 3 / 10 * authorScore + 2 / 10 * (if yearMatch then 1 else 0)"

section \<open>Example inputs\<close>

text \<open>A reference as the parser extracts it, the record a database holds for it, the same
  reference without authors, and a reference of which only the raw text is known.\<close>

definition exampleReference :: reference where
  "exampleReference =
     \<lparr>ref_id = ''ref-1'', raw_text = ''John Smith. A Great Title. Journal X, 2020.'',
      title = ''A Great Title'', authors = [''John Smith''], year = ''2020'',
      venue = ''Journal X'', doi = None, urls = [], page_number = Some 1,
      citation_number = Some 1\<rparr>"

definition exampleRecord :: retrieved_data where
  "exampleRecord =
     \<lparr>rd_title = ''A Great Title'', rd_authors = [''John Smith''], rd_year = ''2020'',
      rd_venue = ''Journal X'', rd_doi = None, rd_url = None\<rparr>"

definition anonymousReference :: reference where
  "anonymousReference =
     \<lparr>ref_id = ''ref-2'', raw_text = ''A Great Title. Journal X, 2020.'',
      title = ''A Great Title'', authors = [], year = ''2020'',
      venue = ''Journal X'', doi = None, urls = [], page_number = Some 1,
      citation_number = Some 2\<rparr>"

definition bareReference :: reference where
  "bareReference =
     \<lparr>ref_id = ''ref-3'', raw_text = ''see also the appendix'', title = [], authors = [],
      year = [], venue = [], doi = None, urls = [], page_number = Some 1,
      citation_number = Some 3\<rparr>"

text \<open>A world in which CrossRef and the web search hold the example record, Semantic
  Scholar and OpenAlex hold nothing, the arXiv request fails, and no explanation fails.\<close>

definition exampleWorld :: world where
  "exampleWorld =
     \<lparr>crossrefAnswer = (\<lambda>r. Inr (Some exampleRecord)),
      semanticScholarAnswer = (\<lambda>r. Inr None),
      openAlexAnswer = (\<lambda>r. Inr None),
      arxivAnswer = (\<lambda>r. Inl ''HTTP 503''),
      enhanceQueriesWithLLM = (\<lambda>r. Inr []),
      perplexityAnswer = (\<lambda>r. Inr (Some exampleRecord)),
      explanationFailure = (\<lambda>r s. None)\<rparr>"

definition exampleSettings :: settings where
  "exampleSettings =
     \<lparr>mode = agent_based, enableCrossRef = True, enableSemanticScholar = True,
      enableOpenAlex = False, enableArxiv = True, rateLimitDelay = 1000\<rparr>"

text \<open>The source CrossRef returns for the reference without authors in that world.\<close>

definition exampleSource :: validation_source where
  "exampleSource =
     \<lparr>name = crossref, found = True, matchScore = 1, retrievedData = Some exampleRecord,
      errors = [], confidence = None, step = Some step_api\<rparr>"

definition notFoundSource :: validation_source where
  "notFoundSource =
     \<lparr>name = crossref, found = False, matchScore = 0, retrievedData = None,
      errors = [''Reference not found in CrossRef''], confidence = None,
      step = Some step_api\<rparr>"




text \<open>The bibliography of two bracketed entries, and a bibliography of three bracketed
  entries whose labels are 1, 3 and 5.\<close>

definition bracketedExample :: string where
  "bracketedExample =
     ''[1] Smith J. A Great Title. Journal X, 2020. [2] Doe A. Another Title. Conf Y, 2019.''"

definition gapExample :: string where
  "gapExample = ''[1] Smith 2020. [3] Doe 2019. [5] Roe 2018.''"

text \<open>A bibliography in the two-column style, with the numbers 1, 2 and 4 glued to the
  names.\<close>

definition twoColumnExample :: string where
  "twoColumnExample =
     ''1Smith J. Learning from data sets. 2019. 2 Doe A. Parsing old references. 2020. 4Roe B. Numbers without brackets. 2021.''"

section \<open>Properties of the string matcher\<close>

subsection \<open>Edit distance\<close>

lemma matrix_le_max: "matrix a b i j \<le> max i j"
  by (induction a b i j rule: matrix.induct) (auto simp: min_def max_def)

lemma matrix_ge_diff: "i - j \<le> matrix a b i j \<and> j - i \<le> matrix a b i j"
  by (induction a b i j rule: matrix.induct) (auto simp: min_def)

lemma matrix_sym: "matrix a b i j = matrix b a j i"
proof (induction a b i j rule: matrix.induct)
  case (1 a b j)
  then show ?case by (cases j) simp_all
next
  case (2 a b i)
  then show ?case by simp
next
  case (3 a b i j)
  then show ?case by (auto simp: min_def)
qed

lemma levenshteinDistance_sym: "levenshteinDistance a b = levenshteinDistance b a"
  by (simp add: levenshteinDistance_def matrix_sym [of a b])

lemma levenshtein_ge_diff: "length b - length a \<le> levenshteinDistance a b"
  by (simp add: levenshteinDistance_def matrix_ge_diff)

lemma stringSimilarity_sym: "stringSimilarity a b = stringSimilarity b a"
  by (auto simp: stringSimilarity_def Let_def levenshteinDistance_sym [of "normalizeString a"]
        max.commute)

lemma stringSimilarity_range: "0 \<le> stringSimilarity a b \<and> stringSimilarity a b \<le> 1"
proof -
  let ?na = "normalizeString a" and ?nb = "normalizeString b"
  have "levenshteinDistance ?na ?nb \<le> max (length ?na) (length ?nb)"
    unfolding levenshteinDistance_def using matrix_le_max [of ?na ?nb "length ?nb" "length ?na"]
    by (simp add: max.commute)
  then have le: "(of_nat (levenshteinDistance ?na ?nb) :: rat)
                 \<le> of_nat (max (length ?na) (length ?nb))"
    using of_nat_le_iff by blast
  show ?thesis
  proof (cases "?na = ?nb \<or> length ?na = 0 \<or> length ?nb = 0")
    case True
    then show ?thesis by (auto simp: stringSimilarity_def Let_def)
  next
    case False
    then have pos: "(0::rat) < of_nat (max (length ?na) (length ?nb))" by (simp add: max_def)
    have q1: "(of_nat (levenshteinDistance ?na ?nb) :: rat)
              / of_nat (max (length ?na) (length ?nb)) \<le> 1"
      using le pos by (simp add: divide_le_eq)
    have q0: "0 \<le> (of_nat (levenshteinDistance ?na ?nb) :: rat)
                  / of_nat (max (length ?na) (length ?nb))"
      by simp
    from False have "stringSimilarity a b
        = 1 - of_nat (levenshteinDistance ?na ?nb) / of_nat (max (length ?na) (length ?nb))"
      by (simp add: stringSimilarity_def Let_def)
    with q0 q1 show ?thesis by linarith
  qed
qed

subsection \<open>Token and title similarity\<close>

lemma matchToken_range: "0 \<le> matchToken t ts \<and> matchToken t ts \<le> 1"
  using stringSimilarity_range by (induction ts) (auto simp: Let_def)

lemma countMatches_lower: "acc \<le> countMatches ts us acc"
proof (induction ts arbitrary: acc)
  case Nil
  then show ?case by simp
next
  case (Cons t ts)
  have "acc \<le> acc + matchToken t us" using matchToken_range [of t us] by simp
  also have "\<dots> \<le> countMatches ts us (acc + matchToken t us)" by (rule Cons.IH)
  finally show ?case by simp
qed

lemma tokenSimilarity_nonneg: "0 \<le> tokenSimilarity a b"
  using countMatches_lower [of 0 "tokensOf a" "tokensOf b"]
  by (simp add: tokenSimilarity_def Let_def)

lemma titleSimilarity_nonneg: "0 \<le> titleSimilarity a b"
  using stringSimilarity_range [of a b] tokenSimilarity_nonneg [of a b]
  by (simp add: titleSimilarity_def combinedSimilarity_def Let_def max_def)

lemma titleSimilarity_sym_tokens:
  "tokenSimilarity a b = tokenSimilarity b a \<Longrightarrow> titleSimilarity a b = titleSimilarity b a"
  using stringSimilarity_sym [of a b]
  by (auto simp: titleSimilarity_def combinedSimilarity_def Let_def min.commute max.commute)

lemma titleSimilarity_sym_early:
  "normalizeTitle a = normalizeTitle b \<or> normalizeTitle a = [] \<or> normalizeTitle b = []
   \<or> includesStr (normalizeTitle a) (normalizeTitle b)
   \<or> includesStr (normalizeTitle b) (normalizeTitle a)
   \<Longrightarrow> titleSimilarity a b = titleSimilarity b a"
  by (auto simp: titleSimilarity_def Let_def min.commute max.commute)

subsection \<open>Two titles with a repeated word\<close>

lemma normalizeTitle_foo_foo_bar: "normalizeTitle ''foo foo bar'' = ''foo foo bar''"
  by code_simp

lemma normalizeTitle_bar_foo: "normalizeTitle ''bar foo'' = ''bar foo''"
  by code_simp

lemma tokenSimilarity_foo: "tokenSimilarity ''foo foo bar'' ''bar foo'' = 3 / 2"
  by code_simp

lemma combinedSimilarity_foo: "combinedSimilarity ''foo foo bar'' ''bar foo'' = 3 / 2"
  using stringSimilarity_range [of "''foo foo bar''" "''bar foo''"] tokenSimilarity_foo
  by (simp add: combinedSimilarity_def max_def)

lemma titleSimilarity_foo: "titleSimilarity ''foo foo bar'' ''bar foo'' = 3 / 2"
  using combinedSimilarity_foo
  by (simp add: titleSimilarity_def normalizeTitle_foo_foo_bar normalizeTitle_bar_foo
        startsWith_def)

subsection \<open>Two titles with a near match\<close>

lemma normalizeTitle_xy: "normalizeTitle ''abcdef xy'' = ''abcdef xy''"
  by code_simp

lemma normalizeTitle_abcdeg: "normalizeTitle ''abcdeg abcdef'' = ''abcdeg abcdef''"
  by code_simp

lemma normalizeString_xy: "normalizeString ''abcdef xy'' = ''abcdef xy''"
  by code_simp

lemma normalizeString_abcdeg: "normalizeString ''abcdeg abcdef'' = ''abcdeg abcdef''"
  by code_simp

lemma tokenSimilarity_xy: "tokenSimilarity ''abcdef xy'' ''abcdeg abcdef'' = 5 / 12"
  by code_simp

lemma tokenSimilarity_abcdeg: "tokenSimilarity ''abcdeg abcdef'' ''abcdef xy'' = 11 / 12"
  by code_simp

lemma levenshtein_xy: "4 \<le> levenshteinDistance ''abcdef xy'' ''abcdeg abcdef''"
  using levenshtein_ge_diff [of "''abcdeg abcdef''" "''abcdef xy''"] by simp

lemma stringSimilarity_xy: "stringSimilarity ''abcdef xy'' ''abcdeg abcdef'' \<le> 9 / 13"
proof -
  have "stringSimilarity ''abcdef xy'' ''abcdeg abcdef''
        = 1 - of_nat (levenshteinDistance ''abcdef xy'' ''abcdeg abcdef'') / 13"
    by (simp add: stringSimilarity_def normalizeString_xy normalizeString_abcdeg)
  moreover have "(4::rat) \<le> of_nat (levenshteinDistance ''abcdef xy'' ''abcdeg abcdef'')"
    using levenshtein_xy by (metis of_nat_le_iff of_nat_numeral)
  ultimately show ?thesis by simp
qed

lemma titleSimilarity_xy: "titleSimilarity ''abcdef xy'' ''abcdeg abcdef'' \<le> 9 / 13"
proof -
  have "titleSimilarity ''abcdef xy'' ''abcdeg abcdef''
        = combinedSimilarity ''abcdef xy'' ''abcdeg abcdef''"
    by (simp add: titleSimilarity_def normalizeTitle_xy normalizeTitle_abcdeg startsWith_def)
  then show ?thesis
    using stringSimilarity_xy tokenSimilarity_xy by (simp add: combinedSimilarity_def)
qed

lemma titleSimilarity_abcdeg: "11 / 12 \<le> titleSimilarity ''abcdeg abcdef'' ''abcdef xy''"
proof -
  have "titleSimilarity ''abcdeg abcdef'' ''abcdef xy''
        = combinedSimilarity ''abcdeg abcdef'' ''abcdef xy''"
    by (simp add: titleSimilarity_def normalizeTitle_xy normalizeTitle_abcdeg startsWith_def)
  then show ?thesis using tokenSimilarity_abcdeg by (simp add: combinedSimilarity_def)
qed

subsection \<open>Symmetry of the title similarity\<close>

text \<open>
  C8, as stated: for all strings \<open>a\<close> and \<open>b\<close>, \<open>titleSimilarity(a,b) = titleSimilarity(b,a)\<close>.
  It fails for the titles ``abcdef xy'' and ``abcdeg abcdef'': the token loop stops at the
  first token of the other title that matches exactly or nearly, so the word ``abcdef'' is
  scored 5/6 against ``abcdeg'' in one direction, while in the other direction both words of
  the second title find a partner.
\<close>

theorem titleSimilarity_symmetric_counterexample:
  "titleSimilarity ''abcdef xy'' ''abcdeg abcdef''
   \<noteq> titleSimilarity ''abcdeg abcdef'' ''abcdef xy''"
  using titleSimilarity_xy titleSimilarity_abcdeg by linarith

text \<open>
  C8, amended: the edit-distance similarity is symmetric for all strings, and
  \<open>titleSimilarity(a,b) = titleSimilarity(b,a)\<close> holds whenever the token similarity of the two
  titles is the same in both directions, and whenever the comparison ends before the token
  similarity is used: the normalised titles are equal, one of them is empty, or one contains
  the other.
\<close>

theorem titleSimilarity_symmetric_when:
  "stringSimilarity a b = stringSimilarity b a
   \<and> (tokenSimilarity a b = tokenSimilarity b a
      \<or> normalizeTitle a = normalizeTitle b \<or> normalizeTitle a = [] \<or> normalizeTitle b = []
      \<or> includesStr (normalizeTitle a) (normalizeTitle b)
      \<or> includesStr (normalizeTitle b) (normalizeTitle a)
      \<longrightarrow> titleSimilarity a b = titleSimilarity b a)"
  using stringSimilarity_sym [of a b] titleSimilarity_sym_tokens [of a b]
    titleSimilarity_sym_early [of a b]
  by blast

theorem titleSimilarity_symmetric_when_witness:
  "tokenSimilarity ''foo bar'' ''bar foo'' = tokenSimilarity ''bar foo'' ''foo bar''
   \<and> titleSimilarity ''foo bar'' ''bar foo'' = titleSimilarity ''bar foo'' ''foo bar''"
proof -
  have h: "tokenSimilarity ''foo bar'' ''bar foo'' = tokenSimilarity ''bar foo'' ''foo bar''"
    by code_simp
  show ?thesis
    using h titleSimilarity_symmetric_when [of "''foo bar''" "''bar foo''"] by blast
qed

subsection \<open>Range of the similarities\<close>

text \<open>
  C1: \<open>tokenSimilarity\<close>, \<open>combinedSimilarity\<close> and \<open>titleSimilarity\<close> return a value in
  \<open>[0,1]\<close>, and so do the match score of a connector and the confidence of the analyzer.
  The code does not keep this bound. \<open>tokenSimilarity\<close> counts a match for every token of the
  first title, repeated tokens included, and divides by the number of distinct tokens: for
  the titles ``foo foo bar'' and ``bar foo'' it counts 3 matches over 2 distinct tokens. The
  theorem evaluates the code there: the three similarities are 3/2, the match score of a
  connector that retrieved the second title for the first is 3/2, and the confidence of the
  analyzer over that source is 5/4.
\<close>

theorem similarity_exceeds_one:
  "tokenSimilarity ''foo foo bar'' ''bar foo'' = 3 / 2
   \<and> combinedSimilarity ''foo foo bar'' ''bar foo'' = 3 / 2
   \<and> titleSimilarity ''foo foo bar'' ''bar foo'' = 3 / 2
   \<and> calculateMatchScore
        \<lparr>ref_id = ''r1'', raw_text = ''foo foo bar'', title = ''foo foo bar'', authors = [],
         year = [], venue = [], doi = None, urls = [], page_number = None,
         citation_number = None\<rparr>
        \<lparr>rd_title = ''bar foo'', rd_authors = [], rd_year = [], rd_venue = [], rd_doi = None,
         rd_url = None\<rparr> = 3 / 2
   \<and> a_confidence
        (analyzeResults
          \<lparr>ref_id = ''r1'', raw_text = ''foo foo bar'', title = ''foo foo bar'', authors = [],
           year = [], venue = [], doi = None, urls = [], page_number = None,
           citation_number = None\<rparr>
          [\<lparr>name = crossref, found = True, matchScore = 3 / 2,
            retrievedData = Some \<lparr>rd_title = ''bar foo'', rd_authors = [], rd_year = [],
                                  rd_venue = [], rd_doi = None, rd_url = None\<rparr>,
            errors = [], confidence = None, step = Some step_api\<rparr>]) = 5 / 4"
proof -
  have m: "calculateMatchScore
        \<lparr>ref_id = ''r1'', raw_text = ''foo foo bar'', title = ''foo foo bar'', authors = [],
         year = [], venue = [], doi = None, urls = [], page_number = None,
         citation_number = None\<rparr>
        \<lparr>rd_title = ''bar foo'', rd_authors = [], rd_year = [], rd_venue = [], rd_doi = None,
         rd_url = None\<rparr> = 3 / 2"
    by (simp add: calculateMatchScore_def addTitlePart_def addAuthorPart_def addYearPart_def
          normalizeByWeights_def truthy_def titleSimilarity_foo)
  have c: "a_confidence
        (analyzeResults
          \<lparr>ref_id = ''r1'', raw_text = ''foo foo bar'', title = ''foo foo bar'', authors = [],
           year = [], venue = [], doi = None, urls = [], page_number = None,
           citation_number = None\<rparr>
          [\<lparr>name = crossref, found = True, matchScore = 3 / 2,
            retrievedData = Some \<lparr>rd_title = ''bar foo'', rd_authors = [], rd_year = [],
                                  rd_venue = [], rd_doi = None, rd_url = None\<rparr>,
            errors = [], confidence = None, step = Some step_api\<rparr>]) = 5 / 4"
    by (simp add: analyzeResults_def sortByScore_def foundSourcesOf_def isWeakWebMatch_def
          detailedAnalysis_def titleCheck_def authorCheck_def yearCheck_def truthy_def
          titleSimilarity_foo Let_def)
  show ?thesis
    using tokenSimilarity_foo combinedSimilarity_foo titleSimilarity_foo m c by blast
qed

section \<open>Properties of the author overlap\<close>

lemma intersection_card:
  "length (filter (\<lambda>n. n \<in> set ys) (remdups xs)) = card (set xs \<inter> set ys)"
proof -
  let ?f = "filter (\<lambda>n. n \<in> set ys) (remdups xs)"
  have d: "distinct ?f" by simp
  have c: "card (set ?f) = length ?f" by (rule distinct_card [OF d])
  have s: "set ?f = set xs \<inter> set ys" by auto
  show ?thesis using c s by metis
qed

lemma compareAuthorLists_formula:
  "compareAuthorLists A B =
     (if A = [] \<or> B = [] then 0
      else of_nat (card (set (map extractLastName A) \<inter> set (map extractLastName B)))
           / of_nat (min (card (set (map extractLastName A)))
                         (card (set (map extractLastName B)))))"
  using intersection_card [of "remdups (map extractLastName B)" "map extractLastName A"]
  by (simp add: compareAuthorLists_def Let_def length_remdups_card_conv)

lemma compareAuthorLists_range: "0 \<le> compareAuthorLists A B \<and> compareAuthorLists A B \<le> 1"
proof (cases "A = [] \<or> B = []")
  case True
  then show ?thesis by (auto simp: compareAuthorLists_def)
next
  case False
  let ?LA = "set (map extractLastName A)" and ?LB = "set (map extractLastName B)"
  have ne: "?LA \<noteq> {}" "?LB \<noteq> {}" using False by auto
  then have pos: "0 < min (card ?LA) (card ?LB)" by (simp add: card_gt_0_iff)
  have "card (?LA \<inter> ?LB) \<le> card ?LA" "card (?LA \<inter> ?LB) \<le> card ?LB"
    by (simp_all add: card_mono)
  then have le: "card (?LA \<inter> ?LB) \<le> min (card ?LA) (card ?LB)" by simp
  have eq: "compareAuthorLists A B
            = of_nat (card (?LA \<inter> ?LB)) / of_nat (min (card ?LA) (card ?LB))"
    using False by (simp add: compareAuthorLists_formula)
  have "(of_nat (card (?LA \<inter> ?LB)) :: rat) \<le> of_nat (min (card ?LA) (card ?LB))"
    using le of_nat_le_iff by blast
  moreover have "(0::rat) < of_nat (min (card ?LA) (card ?LB))" using pos by simp
  ultimately have "(of_nat (card (?LA \<inter> ?LB)) :: rat)
                   / of_nat (min (card ?LA) (card ?LB)) \<le> 1"
    by (simp add: divide_le_eq)
  moreover have "0 \<le> (of_nat (card (?LA \<inter> ?LB)) :: rat)
                     / of_nat (min (card ?LA) (card ?LB))"
    by simp
  ultimately show ?thesis using eq by simp
qed

lemma compareAuthorLists_self: "A \<noteq> [] \<Longrightarrow> compareAuthorLists A A = 1"
proof -
  assume "A \<noteq> []"
  then have "set (map extractLastName A) \<noteq> {}" by simp
  then have "0 < card (set (map extractLastName A))" by (simp add: card_gt_0_iff)
  then show ?thesis using \<open>A \<noteq> []\<close> by (simp add: compareAuthorLists_formula)
qed

lemma compareAuthorLists_smith: 
  "compareAuthorLists [''Smith J'', ''Smith K''] [''Smith J'', ''Doe A''] = 1"
  by code_simp

lemma authorListOverlapSpec_smith:
  "authorListOverlapSpec [''Smith J'', ''Smith K''] [''Smith J'', ''Doe A''] = 1 / 2"
  by code_simp

text \<open>
  C9, as stated: \<open>compareAuthorLists\<close> returns the size of the intersection of the two sets of
  last names divided by \<open>min(|A|,|B|)\<close>, the smaller of the two list lengths. It fails for
  two authors with the same last name: the lists ``Smith J, Smith K'' and ``Smith J, Doe A''
  share the one name ``smith''; the code divides by the smaller number of distinct last names,
  which is 1, and returns 1, where the stated quotient is 1/2.
\<close>

theorem compareAuthorLists_counterexample:
  "compareAuthorLists [''Smith J'', ''Smith K''] [''Smith J'', ''Doe A'']
   \<noteq> authorListOverlapSpec [''Smith J'', ''Smith K''] [''Smith J'', ''Doe A'']"
  using compareAuthorLists_smith authorListOverlapSpec_smith by simp

text \<open>
  C9, amended: \<open>compareAuthorLists\<close> returns 0 when either list is empty and otherwise the
  size of the intersection of the two sets of extracted last names divided by the smaller
  of the sizes of these two sets (the numbers of distinct last names, not the list lengths);
  the result is in \<open>[0,1]\<close>, and \<open>compareAuthorLists(A,A) = 1\<close> for every non-empty \<open>A\<close>.
\<close>

theorem compareAuthorLists_overlap:
  "compareAuthorLists A B =
     (if A = [] \<or> B = [] then 0
      else of_nat (card (set (map extractLastName A) \<inter> set (map extractLastName B)))
           / of_nat (min (card (set (map extractLastName A)))
                         (card (set (map extractLastName B)))))
   \<and> 0 \<le> compareAuthorLists A B \<and> compareAuthorLists A B \<le> 1
   \<and> (A \<noteq> [] \<longrightarrow> compareAuthorLists A A = 1)"
  using compareAuthorLists_formula [of A B] compareAuthorLists_range [of A B]
    compareAuthorLists_self [of A]
  by blast

theorem compareAuthorLists_overlap_witness:
  "[''Smith J'', ''Doe A''] \<noteq> []
   \<and> compareAuthorLists [''Smith J'', ''Doe A''] [''Smith J'', ''Doe A''] = 1"
  using compareAuthorLists_overlap [of "[''Smith J'', ''Doe A'']" "[''Smith J'', ''Doe A'']"]
  by simp

section \<open>Properties of the integers read from strings\<close>

lemma roundToDouble_small: "n < 2 ^ 53 \<Longrightarrow> roundToDouble n = Some n"
  by (simp add: roundToDouble_def)

lemma bitLength_pos: "0 < n \<Longrightarrow> 0 < bitLength n"
  by (subst bitLength.simps) simp

lemma bitLength_bound: "0 < n \<Longrightarrow> 2 ^ (bitLength n - 1) \<le> n"
proof (induction n rule: bitLength.induct)
  case (1 n)
  show ?case
  proof (cases "n div 2 > 0")
    case True
    with 1 have ih: "2 ^ (bitLength (n div 2) - 1) \<le> n div 2" by simp
    from True have p: "0 < bitLength (n div 2)" by (rule bitLength_pos)
    have "bitLength n = Suc (bitLength (n div 2))"
      using 1(2) by (subst bitLength.simps) simp
    then have "(2::int) ^ (bitLength n - 1) = 2 * 2 ^ (bitLength (n div 2) - 1)"
      using p by (cases "bitLength (n div 2)") simp_all
    also have "\<dots> \<le> 2 * (n div 2)" using ih by simp
    also have "\<dots> \<le> n" by simp
    finally show ?thesis .
  next
    case False
    then have z: "bitLength (n div 2) = 0" by (subst bitLength.simps) simp
    have "bitLength n = Suc (bitLength (n div 2))"
      using 1(2) by (subst bitLength.simps) simp
    with z 1(2) show ?thesis by simp
  qed
qed

lemma roundToDouble_large:
  assumes "2 \<le> n"
  shows "roundToDouble n = None \<or> (\<exists>m. roundToDouble n = Some m \<and> 2 \<le> m)"
proof (cases "n < 2 ^ 53")
  case True
  with assms show ?thesis by (simp add: roundToDouble_small)
next
  case False
  define e where "e = bitLength n - 53"
  define q where "q = n div 2 ^ e"
  define m where "m = (if 2 ^ e < 2 * (n mod 2 ^ e) \<or> (2 * (n mod 2 ^ e) = 2 ^ e \<and> odd q)
                       then q + 1 else q) * 2 ^ e"
  have r: "roundToDouble n = (if m < 2 ^ 1024 then Some m else None)"
    using False by (simp add: roundToDouble_def Let_def e_def q_def m_def)
  have "e \<le> bitLength n - 1" by (simp add: e_def)
  then have "(2::int) ^ e \<le> 2 ^ (bitLength n - 1)" by (rule power_increasing) simp
  also have "\<dots> \<le> n" using assms by (intro bitLength_bound) simp
  finally have le: "(2::int) ^ e \<le> n" .
  have q1: "1 \<le> q"
  proof -
    have "0 < n div 2 ^ e" using le by (subst pos_imp_zdiv_pos_iff) simp_all
    then show ?thesis by (simp add: q_def)
  qed
  have qe: "q * 2 ^ e \<le> m" by (simp add: m_def)
  have "2 \<le> q * 2 ^ e"
  proof (cases e)
    case 0
    with False have "2 ^ 53 \<le> q" by (simp add: q_def)
    with 0 show ?thesis by simp
  next
    case (Suc k)
    have "(2::int) \<le> 1 * 2 ^ e" using Suc by simp
    also have "\<dots> \<le> q * 2 ^ e" using q1 by (intro mult_right_mono) simp_all
    finally show ?thesis .
  qed
  with qe have "2 \<le> m" by simp
  with r show ?thesis by simp
qed

lemma doubleOfInt_unit: "lessEq (mathAbs (doubleOfInt x)) 1 \<longleftrightarrow> \<bar>x\<bar> \<le> 1"
proof (cases "\<bar>x\<bar> \<le> 1")
  case True
  then have "roundToDouble \<bar>x\<bar> = Some \<bar>x\<bar>" by (intro roundToDouble_small) simp
  with True show ?thesis by (auto simp: doubleOfInt_def signedDouble_def)
next
  case False
  then have "2 \<le> \<bar>x\<bar>" by simp
  from roundToDouble_large [OF this] False show ?thesis
    by (auto simp: doubleOfInt_def signedDouble_def)
qed

lemma doubleOfInt_small: "\<bar>x\<bar> < 2 ^ 53 \<Longrightarrow> doubleOfInt x = Finite x"
  by (simp add: doubleOfInt_def signedDouble_def roundToDouble_small)

lemma signedNumber_Nil: "signedNumber u [] = NaN"
  by (simp add: signedNumber_def trimStart_def)

lemma parseInt_Nil: "parseInt [] = NaN"
  by (simp add: parseInt_def signedNumber_Nil)

lemma parseInt_2020: "parseInt ''2020'' = Finite 2020"
  by code_simp

text \<open>Above \<open>2^53\<close> the numbers read are rounded: two numerals that differ by 2 are read as
  doubles that differ by 1.\<close>

lemma parseInt_rounds:
  "parseInt ''9007199254740993'' = Finite 9007199254740992"
  "parseInt ''9007199254740991'' = Finite 9007199254740991"
  by code_simp+

section \<open>Properties of the analyzer\<close>

lemma sortByScore_head:
  assumes "sortByScore xs = b # rest"
  shows "b \<in> set xs \<and> list_all (\<lambda>s. matchScore s \<le> matchScore b) xs"
proof -
  have s: "sorted (map (\<lambda>s. - matchScore s) (sortByScore xs))"
    unfolding sortByScore_def by (rule sorted_sort_key)
  have e: "set (sortByScore xs) = set xs" by (simp add: sortByScore_def)
  from s assms have "\<forall>y\<in>set rest. - matchScore b \<le> - matchScore y" by simp
  then have "\<forall>y\<in>set (b # rest). matchScore y \<le> matchScore b" by simp
  with assms e show ?thesis by (auto simp: list_all_iff)
qed

lemma sortByScore_Nil: "sortByScore xs = [] \<longleftrightarrow> xs = []"
  by (metis sortByScore_def length_sort length_0_conv)

lemma sortByScore_first:
  "xs \<noteq> [] \<Longrightarrow>
     \<exists>pre best post rest. xs = pre @ best # post
       \<and> (\<forall>s\<in>set pre. matchScore s < matchScore best)
       \<and> (\<forall>s\<in>set post. matchScore s \<le> matchScore best)
       \<and> sortByScore xs = best # rest"
proof (induction xs)
  case Nil
  then show ?case by simp
next
  case (Cons x xs)
  show ?case
  proof (cases "xs = []")
    case True
    have "x # xs = [] @ x # [] \<and> sortByScore (x # xs) = x # []"
      using True by (simp add: sortByScore_def)
    then show ?thesis by fastforce
  next
    case False
    from Cons.IH [OF False] obtain pre best post rest where
      d: "xs = pre @ best # post"
      and lo: "\<forall>s\<in>set pre. matchScore s < matchScore best"
      and hi: "\<forall>s\<in>set post. matchScore s \<le> matchScore best"
      and h: "sortByScore xs = best # rest" by blast
    have i: "sortByScore (x # xs) = insort_key (\<lambda>s. - matchScore s) x (best # rest)"
      using h by (simp add: sortByScore_def)
    show ?thesis
    proof (cases "matchScore best \<le> matchScore x")
      case True
      have a: "\<forall>s\<in>set xs. matchScore s \<le> matchScore x"
        using d lo hi True by auto
      have "x # xs = [] @ x # xs \<and> sortByScore (x # xs) = x # best # rest"
        using i True by simp
      with a show ?thesis by fastforce
    next
      case False
      have "x # xs = (x # pre) @ best # post
          \<and> sortByScore (x # xs) = best # insort_key (\<lambda>s. - matchScore s) x rest"
        using i d False by simp
      moreover have "\<forall>s\<in>set (x # pre). matchScore s < matchScore best"
        using lo False by simp
      ultimately show ?thesis using hi by blast
    qed
  qed
qed

lemma findBestMatch_Some:
  assumes "findBestMatch srcs = Some best"
  shows "best \<in> set srcs \<and> found best \<and> 0 < matchScore best
         \<and> list_all (\<lambda>s. if found s \<and> matchScore s > 0 then matchScore s \<le> matchScore best else True) srcs"
proof -
  from assms obtain rest where h: "sortByScore (foundSourcesOf srcs) = best # rest"
    by (auto simp: findBestMatch_def split: list.splits)
  from sortByScore_head [OF h]
  have m: "best \<in> set (foundSourcesOf srcs)"
    and a: "list_all (\<lambda>s. matchScore s \<le> matchScore best) (foundSourcesOf srcs)" by simp_all
  from m have "best \<in> set srcs \<and> found best \<and> 0 < matchScore best"
    by (simp add: foundSourcesOf_def)
  moreover from a have "list_all (\<lambda>s. if found s \<and> matchScore s > 0 then matchScore s \<le> matchScore best else True) srcs"
    by (auto simp: foundSourcesOf_def list_all_iff)
  ultimately show ?thesis by simp
qed

lemma analyzeResults_best:
  assumes "findBestMatch srcs = Some best" "retrievedData best = Some d" "\<not> isWeakWebMatch best"
  shows "analyzeResults r srcs = detailedAnalysis r best d"
  using assms by (auto simp: findBestMatch_def analyzeResults_def split: list.splits)

lemma analyzeResultsApiOnly_best:
  assumes "findBestMatch srcs = Some best" "retrievedData best = Some d"
  shows "analyzeResultsApiOnly r srcs = detailedAnalysis r best d"
  using assms by (auto simp: findBestMatch_def analyzeResultsApiOnly_def split: list.splits)

lemma decideStatus_spec: "decideStatus t a y m = statusBySpec t a y m"
  by (simp add: decideStatus_def statusBySpec_def TITLE_MATCH_THRESHOLD_def AUTHOR_MATCH_THRESHOLD_def)

lemma titleCheck_score:
  "fst (titleCheck r d) =
     (if title r \<noteq> [] \<and> rd_title d \<noteq> [] then titleSimilarity (title r) (rd_title d)
      else if title r \<noteq> [] then 0 else 1)"
  by (simp add: titleCheck_def truthy_def Let_def)

lemma authorCheck_score:
  "fst (authorCheck r d) =
     (if authors r \<noteq> [] \<and> rd_authors d \<noteq> [] then compareAuthorLists (authors r) (rd_authors d)
      else 1)"
  by (simp add: authorCheck_def Let_def)

lemma yearCheck_flag:
  "fst (yearCheck r d) =
     (if isNaN (parseInt (year r)) \<or> isNaN (parseInt (rd_year d)) then True
      else (case (parseInt (year r), parseInt (rd_year d)) of
              (Finite refYear, Finite matchYear) \<Rightarrow> \<bar>refYear - matchYear\<bar> \<le> 1
            | _ \<Rightarrow> False))"
proof (cases "truthy (year r) \<and> truthy (rd_year d)")
  case True
  then show ?thesis
    by (cases "parseInt (year r)"; cases "parseInt (rd_year d)")
       (simp_all add: yearCheck_def Let_def isNaN_def YEAR_TOLERANCE_def doubleOfInt_unit)
next
  case False
  then have "year r = [] \<or> rd_year d = []" by (auto simp: truthy_def)
  then have n: "isNaN (parseInt (year r)) \<or> isNaN (parseInt (rd_year d))"
    by (auto simp: isNaN_def parseInt_Nil)
  from False have "fst (yearCheck r d) = True" by (auto simp: yearCheck_def)
  with n show ?thesis by simp
qed

lemma detailedAnalysis_fields:
  "a_status (detailedAnalysis r best d)
     = statusBySpec (fst (titleCheck r d)) (fst (authorCheck r d)) (fst (yearCheck r d)) (matchScore best)
   \<and> a_confidence (detailedAnalysis r best d)
     = confidenceBySpec (fst (titleCheck r d)) (fst (authorCheck r d)) (fst (yearCheck r d))
   \<and> a_bestMatch (detailedAnalysis r best d) = Some d"
  by (simp add: detailedAnalysis_def Let_def decideStatus_spec confidenceBySpec_def)

lemma analyze_none:
  assumes "\<not> list_ex (\<lambda>s. found s \<and> matchScore s > 0) srcs"
  shows "analyzeResults r srcs = unverifiedAnalysis []"
    and "analyzeResultsApiOnly r srcs = unverifiedAnalysis
            [\<lparr>issue_type = not_found, severity = sev_warning,
              message = msg_not_found_in_any_database,
              expected = title r, found_text = []\<rparr>]"
proof -
  from assms have "foundSourcesOf srcs = []"
    by (auto simp: foundSourcesOf_def list_ex_iff filter_empty_conv)
  then show "analyzeResults r srcs = unverifiedAnalysis []"
    and "analyzeResultsApiOnly r srcs = unverifiedAnalysis
            [\<lparr>issue_type = not_found, severity = sev_warning,
              message = msg_not_found_in_any_database,
              expected = title r, found_text = []\<rparr>]"
    by (simp_all add: analyzeResults_def analyzeResultsApiOnly_def sortByScore_def)
qed

lemma titleSimilarity_same: "titleSimilarity ''A Great Title'' ''A Great Title'' = 1"
  by (simp add: titleSimilarity_def)

lemma compareAuthorLists_same: "compareAuthorLists [''John Smith''] [''John Smith''] = 1"
  by (simp add: compareAuthorLists_self)

lemma findBestMatch_example:
  "findBestMatch [notFoundSource, exampleSource] = Some exampleSource"
  by (simp add: findBestMatch_def foundSourcesOf_def sortByScore_def notFoundSource_def
        exampleSource_def)

text \<open>
  C4, as stated: when no source has \<open>found\<close> and a positive match score, the analyzer returns
  status \<open>unverified\<close>, an empty list of issues and no best match, in both modes. The
  api-only analyzer does not return an empty list: it reports one \<open>not_found\<close> issue.
\<close>

theorem analyzer_not_found_counterexample:
  "a_issues (analyzeResultsApiOnly exampleReference [notFoundSource]) \<noteq> []"
  by (simp add: analyzeResultsApiOnly_def foundSourcesOf_def sortByScore_def
        unverifiedAnalysis_def notFoundSource_def)

text \<open>
  C4, amended: when no source has \<open>found\<close> and a positive match score, both analyzers return
  status \<open>unverified\<close> and no best match; the analyzer of the staged mode returns an empty
  list of issues, and the analyzer of the api-only mode returns exactly one issue, of type
  \<open>not_found\<close> and severity \<open>warning\<close>, that expects the title of the reference.
\<close>

theorem analyzer_not_found:
  "\<not> list_ex (\<lambda>s. found s \<and> matchScore s > 0) srcs \<Longrightarrow>
     a_status (analyzeResults r srcs) = unverified
     \<and> a_issues (analyzeResults r srcs) = []
     \<and> a_bestMatch (analyzeResults r srcs) = None
     \<and> a_status (analyzeResultsApiOnly r srcs) = unverified
     \<and> a_issues (analyzeResultsApiOnly r srcs)
         = [\<lparr>issue_type = not_found, severity = sev_warning,
             message = msg_not_found_in_any_database,
             expected = title r, found_text = []\<rparr>]
     \<and> a_bestMatch (analyzeResultsApiOnly r srcs) = None"
  by (simp add: analyze_none unverifiedAnalysis_def)

theorem analyzer_not_found_witness:
  "\<not> list_ex (\<lambda>s. found s \<and> matchScore s > 0) [notFoundSource]
   \<and> a_status (analyzeResults exampleReference [notFoundSource]) = unverified
   \<and> a_issues (analyzeResults exampleReference [notFoundSource]) = []
   \<and> a_bestMatch (analyzeResults exampleReference [notFoundSource]) = None
   \<and> a_status (analyzeResultsApiOnly exampleReference [notFoundSource]) = unverified
   \<and> length (a_issues (analyzeResultsApiOnly exampleReference [notFoundSource])) = 1"
proof -
  have h: "\<not> list_ex (\<lambda>s. found s \<and> matchScore s > 0) [notFoundSource]"
    by (simp add: notFoundSource_def)
  show ?thesis using h analyzer_not_found [OF h, of exampleReference] by simp
qed

text \<open>
  C2, as stated: the analyzer takes \<open>authorScore = authorListOverlap(reference.authors,
  best.authors)\<close>. For the reference without authors and the CrossRef source that holds the
  example record, the overlap of the empty author list is 0, so the stated rules give
  \<open>warning\<close> and confidence 0.7; the code takes the author score of a reference without
  authors to be 1 and returns \<open>verified\<close> with confidence 1.
\<close>

theorem analyzer_decision_counterexample:
  "a_status (analyzeResults anonymousReference [exampleSource])
     \<noteq> statusBySpec
         (titleSimilarity (title anonymousReference) (rd_title exampleRecord))
         (compareAuthorLists (authors anonymousReference) (rd_authors exampleRecord))
         (abs (2020 - 2020 :: int) \<le> 1)
         (matchScore exampleSource)
   \<and> a_confidence (analyzeResults anonymousReference [exampleSource])
     \<noteq> confidenceBySpec
         (titleSimilarity (title anonymousReference) (rd_title exampleRecord))
         (compareAuthorLists (authors anonymousReference) (rd_authors exampleRecord))
         (abs (2020 - 2020 :: int) \<le> 1)"
proof -
  have a: "analyzeResults anonymousReference [exampleSource]
           = detailedAnalysis anonymousReference exampleSource exampleRecord"
    by (simp add: analyzeResults_def foundSourcesOf_def sortByScore_def isWeakWebMatch_def
          exampleSource_def)
  have t: "fst (titleCheck anonymousReference exampleRecord) = 1"
    by (simp add: titleCheck_score anonymousReference_def exampleRecord_def
          titleSimilarity_same)
  have u: "fst (authorCheck anonymousReference exampleRecord) = 1"
    by (simp add: authorCheck_score anonymousReference_def)
  have y: "fst (yearCheck anonymousReference exampleRecord) = True"
    by (simp add: yearCheck_flag anonymousReference_def exampleRecord_def parseInt_2020
          isNaN_def)
  have s: "a_status (analyzeResults anonymousReference [exampleSource]) = verified"
    using detailedAnalysis_fields [of anonymousReference exampleSource exampleRecord]
    by (simp add: a t u y statusBySpec_def)
  have c: "a_confidence (analyzeResults anonymousReference [exampleSource]) = 1"
    using detailedAnalysis_fields [of anonymousReference exampleSource exampleRecord]
    by (simp add: a t u y confidenceBySpec_def)
  have o: "compareAuthorLists (authors anonymousReference) (rd_authors exampleRecord) = 0"
    by (simp add: compareAuthorLists_def anonymousReference_def)
  have m: "titleSimilarity (title anonymousReference) (rd_title exampleRecord) = 1"
    by (simp add: anonymousReference_def exampleRecord_def titleSimilarity_same)
  show ?thesis
    by (simp add: s c o m statusBySpec_def confidenceBySpec_def)
qed

text \<open>
  C2, amended: when some source has \<open>found\<close> and a positive match score, the analyzer takes
  as best the first source of highest match score among these sources (no such source
  before it has a score as high, none after it has a higher one), and the best match it
  returns is the retrieved data of that source. When that source carries retrieved data
  (and, in the staged mode, is not a weak web search match), the analyzer computes
  \<^item> \<open>titleScore\<close>: \<open>titleSimilarity(reference.title, best.title)\<close> when both titles are
    non-empty, 0 when only the title of the best match is empty, 1 when the reference has
    no title;
  \<^item> \<open>authorScore\<close>: \<open>compareAuthorLists(reference.authors, best.authors)\<close> when both lists
    are non-empty, and 1 otherwise;
  \<^item> \<open>yearMatch\<close>: true when \<open>parseInt\<close> of either year is \<open>NaN\<close>; otherwise
    \<open>|\<Delta>year| \<le> 1\<close> for the two doubles that \<open>parseInt\<close> returns (the integers read,
    rounded to doubles beyond \<open>2^53\<close>), and false when one of them is infinite;
  and returns the status of the four rules and the confidence
  \<open>0.5\<cdot>titleScore + 0.3\<cdot>authorScore + 0.2\<cdot>(yearMatch?1:0)\<close>.
\<close>

theorem analyzer_decision:
  assumes "list_ex (\<lambda>s. found s \<and> matchScore s > 0) srcs"
  shows "\<exists>pre best post.
       filter (\<lambda>s. found s \<and> matchScore s > 0) srcs = pre @ best # post
     \<and> (\<forall>s\<in>set pre. matchScore s < matchScore best)
     \<and> (\<forall>s\<in>set post. matchScore s \<le> matchScore best)
     \<and> a_bestMatch (analyzeResultsApiOnly r srcs) = retrievedData best
     \<and> a_bestMatch (analyzeResults r srcs) = retrievedData best
     \<and> (\<forall>d. retrievedData best = Some d \<longrightarrow>
          (let titleScore = (if title r \<noteq> [] \<and> rd_title d \<noteq> []
                             then titleSimilarity (title r) (rd_title d)
                             else if title r \<noteq> [] then 0 else 1);
               authorScore = (if authors r \<noteq> [] \<and> rd_authors d \<noteq> []
                              then compareAuthorLists (authors r) (rd_authors d) else 1);
               yearMatch = (if isNaN (parseInt (year r)) \<or> isNaN (parseInt (rd_year d))
                            then True
                            else (case (parseInt (year r), parseInt (rd_year d)) of
                                    (Finite refYear, Finite matchYear) \<Rightarrow>
                                      \<bar>refYear - matchYear\<bar> \<le> 1
                                  | _ \<Rightarrow> False))
           in a_status (analyzeResultsApiOnly r srcs)
                = statusBySpec titleScore authorScore yearMatch (matchScore best)
              \<and> a_confidence (analyzeResultsApiOnly r srcs)
                = confidenceBySpec titleScore authorScore yearMatch
              \<and> (\<not> isWeakWebMatch best \<longrightarrow>
                   a_status (analyzeResults r srcs)
                     = statusBySpec titleScore authorScore yearMatch (matchScore best)
                   \<and> a_confidence (analyzeResults r srcs)
                     = confidenceBySpec titleScore authorScore yearMatch)))"
proof -
  from assms have ne: "foundSourcesOf srcs \<noteq> []"
    by (auto simp: foundSourcesOf_def list_ex_iff filter_empty_conv)
  from sortByScore_first [OF ne] obtain pre best post rest where
    d: "foundSourcesOf srcs = pre @ best # post"
    and lo: "\<forall>s\<in>set pre. matchScore s < matchScore best"
    and hi: "\<forall>s\<in>set post. matchScore s \<le> matchScore best"
    and h: "sortByScore (foundSourcesOf srcs) = best # rest" by blast
  have fb: "findBestMatch srcs = Some best" by (simp add: findBestMatch_def h)
  have b1: "a_bestMatch (analyzeResultsApiOnly r srcs) = retrievedData best"
    by (simp add: analyzeResultsApiOnly_def h unverifiedAnalysis_def detailedAnalysis_def
          Let_def split: option.splits)
  have b2: "a_bestMatch (analyzeResults r srcs) = retrievedData best"
    by (simp add: analyzeResults_def h unverifiedAnalysis_def detailedAnalysis_def
          Let_def split: option.splits)
  have m: "retrievedData best = Some m \<longrightarrow>
          (let titleScore = (if title r \<noteq> [] \<and> rd_title m \<noteq> []
                             then titleSimilarity (title r) (rd_title m)
                             else if title r \<noteq> [] then 0 else 1);
               authorScore = (if authors r \<noteq> [] \<and> rd_authors m \<noteq> []
                              then compareAuthorLists (authors r) (rd_authors m) else 1);
               yearMatch = (if isNaN (parseInt (year r)) \<or> isNaN (parseInt (rd_year m))
                            then True
                            else (case (parseInt (year r), parseInt (rd_year m)) of
                                    (Finite refYear, Finite matchYear) \<Rightarrow>
                                      \<bar>refYear - matchYear\<bar> \<le> 1
                                  | _ \<Rightarrow> False))
           in a_status (analyzeResultsApiOnly r srcs)
                = statusBySpec titleScore authorScore yearMatch (matchScore best)
              \<and> a_confidence (analyzeResultsApiOnly r srcs)
                = confidenceBySpec titleScore authorScore yearMatch
              \<and> (\<not> isWeakWebMatch best \<longrightarrow>
                   a_status (analyzeResults r srcs)
                     = statusBySpec titleScore authorScore yearMatch (matchScore best)
                   \<and> a_confidence (analyzeResults r srcs)
                     = confidenceBySpec titleScore authorScore yearMatch))" for m
  proof
    assume rd: "retrievedData best = Some m"
    note f = detailedAnalysis_fields [of r best m]
    have api: "analyzeResultsApiOnly r srcs = detailedAnalysis r best m"
      by (rule analyzeResultsApiOnly_best [OF fb rd])
    have ag: "\<not> isWeakWebMatch best \<Longrightarrow> analyzeResults r srcs = detailedAnalysis r best m"
      by (rule analyzeResults_best [OF fb rd])
    show "let titleScore = (if title r \<noteq> [] \<and> rd_title m \<noteq> []
                             then titleSimilarity (title r) (rd_title m)
                             else if title r \<noteq> [] then 0 else 1);
               authorScore = (if authors r \<noteq> [] \<and> rd_authors m \<noteq> []
                              then compareAuthorLists (authors r) (rd_authors m) else 1);
               yearMatch = (if isNaN (parseInt (year r)) \<or> isNaN (parseInt (rd_year m))
                            then True
                            else (case (parseInt (year r), parseInt (rd_year m)) of
                                    (Finite refYear, Finite matchYear) \<Rightarrow>
                                      \<bar>refYear - matchYear\<bar> \<le> 1
                                  | _ \<Rightarrow> False))
           in a_status (analyzeResultsApiOnly r srcs)
                = statusBySpec titleScore authorScore yearMatch (matchScore best)
              \<and> a_confidence (analyzeResultsApiOnly r srcs)
                = confidenceBySpec titleScore authorScore yearMatch
              \<and> (\<not> isWeakWebMatch best \<longrightarrow>
                   a_status (analyzeResults r srcs)
                     = statusBySpec titleScore authorScore yearMatch (matchScore best)
                   \<and> a_confidence (analyzeResults r srcs)
                     = confidenceBySpec titleScore authorScore yearMatch)"
      using f api ag
      by (simp add: Let_def titleCheck_score authorCheck_score yearCheck_flag)
  qed
  from d have d': "filter (\<lambda>s. found s \<and> matchScore s > 0) srcs = pre @ best # post"
    by (simp add: foundSourcesOf_def)
  show ?thesis
    apply (rule exI [of _ pre])
    apply (rule exI [of _ best])
    apply (rule exI [of _ post])
    using d' lo hi b1 b2 m by blast
qed

text \<open>In the witness the second of two sources is the only one found, so it is the best.\<close>

theorem analyzer_decision_witness:
  "list_ex (\<lambda>s. found s \<and> matchScore s > 0) [notFoundSource, exampleSource]
   \<and> a_bestMatch (analyzeResults exampleReference [notFoundSource, exampleSource])
       = Some exampleRecord
   \<and> a_status (analyzeResults exampleReference [notFoundSource, exampleSource]) = verified
   \<and> a_confidence (analyzeResults exampleReference [notFoundSource, exampleSource]) = 1
   \<and> a_status (analyzeResultsApiOnly exampleReference [notFoundSource, exampleSource]) = verified"
proof -
  have h: "list_ex (\<lambda>s. found s \<and> matchScore s > 0) [notFoundSource, exampleSource]"
    by (simp add: notFoundSource_def exampleSource_def)
  have f: "filter (\<lambda>s. found s \<and> matchScore s > 0) [notFoundSource, exampleSource]
           = [exampleSource]"
    by (simp add: notFoundSource_def exampleSource_def)
  from analyzer_decision [OF h, of exampleReference] obtain pre best post where
    1: "filter (\<lambda>s. found s \<and> matchScore s > 0) [notFoundSource, exampleSource]
        = pre @ best # post"
    and 2: "a_bestMatch (analyzeResults exampleReference [notFoundSource, exampleSource])
            = retrievedData best"
    and 3: "\<forall>d. retrievedData best = Some d \<longrightarrow>
          (let titleScore = (if title exampleReference \<noteq> [] \<and> rd_title d \<noteq> []
                             then titleSimilarity (title exampleReference) (rd_title d)
                             else if title exampleReference \<noteq> [] then 0 else 1);
               authorScore = (if authors exampleReference \<noteq> [] \<and> rd_authors d \<noteq> []
                              then compareAuthorLists (authors exampleReference) (rd_authors d)
                              else 1);
               yearMatch = (if isNaN (parseInt (year exampleReference))
                               \<or> isNaN (parseInt (rd_year d))
                            then True
                            else (case (parseInt (year exampleReference), parseInt (rd_year d)) of
                                    (Finite refYear, Finite matchYear) \<Rightarrow>
                                      \<bar>refYear - matchYear\<bar> \<le> 1
                                  | _ \<Rightarrow> False))
           in a_status (analyzeResultsApiOnly exampleReference [notFoundSource, exampleSource])
                = statusBySpec titleScore authorScore yearMatch (matchScore best)
              \<and> a_confidence (analyzeResultsApiOnly exampleReference
                                [notFoundSource, exampleSource])
                = confidenceBySpec titleScore authorScore yearMatch
              \<and> (\<not> isWeakWebMatch best \<longrightarrow>
                   a_status (analyzeResults exampleReference [notFoundSource, exampleSource])
                     = statusBySpec titleScore authorScore yearMatch (matchScore best)
                   \<and> a_confidence (analyzeResults exampleReference
                                     [notFoundSource, exampleSource])
                     = confidenceBySpec titleScore authorScore yearMatch))"
    by blast
  from 1 have "[exampleSource] = pre @ best # post" by (simp only: f)
  then have b: "best = exampleSource" by (simp add: Cons_eq_append_conv)
  have h2: "retrievedData exampleSource = Some exampleRecord"
    by (simp add: exampleSource_def)
  have h3: "\<not> isWeakWebMatch exampleSource"
    by (simp add: isWeakWebMatch_def exampleSource_def)
  have m: "matchScore exampleSource = 1" by (simp add: exampleSource_def)
  from 3 b h2 have 4:
    "let titleScore = (if title exampleReference \<noteq> [] \<and> rd_title exampleRecord \<noteq> []
                       then titleSimilarity (title exampleReference) (rd_title exampleRecord)
                       else if title exampleReference \<noteq> [] then 0 else 1);
         authorScore = (if authors exampleReference \<noteq> [] \<and> rd_authors exampleRecord \<noteq> []
                        then compareAuthorLists (authors exampleReference)
                               (rd_authors exampleRecord)
                        else 1);
         yearMatch = (if isNaN (parseInt (year exampleReference))
                         \<or> isNaN (parseInt (rd_year exampleRecord))
                      then True
                      else (case (parseInt (year exampleReference),
                                  parseInt (rd_year exampleRecord)) of
                              (Finite refYear, Finite matchYear) \<Rightarrow>
                                \<bar>refYear - matchYear\<bar> \<le> 1
                            | _ \<Rightarrow> False))
     in a_status (analyzeResultsApiOnly exampleReference [notFoundSource, exampleSource])
          = statusBySpec titleScore authorScore yearMatch (matchScore exampleSource)
        \<and> a_confidence (analyzeResultsApiOnly exampleReference
                          [notFoundSource, exampleSource])
          = confidenceBySpec titleScore authorScore yearMatch
        \<and> (\<not> isWeakWebMatch exampleSource \<longrightarrow>
             a_status (analyzeResults exampleReference [notFoundSource, exampleSource])
               = statusBySpec titleScore authorScore yearMatch (matchScore exampleSource)
             \<and> a_confidence (analyzeResults exampleReference
                               [notFoundSource, exampleSource])
               = confidenceBySpec titleScore authorScore yearMatch)"
    by blast
  show ?thesis
    using h 2 b h2 h3 4
    by (simp add: Let_def exampleReference_def exampleRecord_def titleSimilarity_same
          compareAuthorLists_same parseInt_2020 isNaN_def statusBySpec_def
          confidenceBySpec_def m)
qed

section \<open>Properties of the connectors and of the orchestrators\<close>

lemma connectorResult_not_found:
  "\<not> found (connectorResult n m e sc r ans) \<Longrightarrow>
     matchScore (connectorResult n m e sc r ans) = 0 \<and> retrievedData (connectorResult n m e sc r ans) = None"
  by (auto simp: connectorResult_def emptySource_def split: sum.splits option.splits)

lemma connectorResult_found:
  "found (connectorResult n m e sc r ans) \<Longrightarrow> retrievedData (connectorResult n m e sc r ans) \<noteq> None"
  by (auto simp: connectorResult_def emptySource_def split: sum.splits option.splits)

lemma normalizeByWeights_nonneg: "0 \<le> fst sw \<Longrightarrow> 0 \<le> snd sw \<Longrightarrow> 0 \<le> normalizeByWeights sw"
  by (simp add: normalizeByWeights_def)

lemma addTitlePart_nonneg:
  "0 \<le> fst sw \<Longrightarrow> 0 \<le> snd sw \<Longrightarrow> 0 \<le> fst (addTitlePart r d sw) \<and> 0 \<le> snd (addTitlePart r d sw)"
  using titleSimilarity_nonneg [of "title r" "rd_title d"] by (simp add: addTitlePart_def)

lemma yearScore_nonneg: "0 \<le> yearScore y"
  by (simp add: yearScore_def)

lemma addYearPart_nonneg:
  "0 \<le> fst sw \<Longrightarrow> 0 \<le> snd sw \<Longrightarrow> 0 \<le> fst (addYearPart r d sw) \<and> 0 \<le> snd (addYearPart r d sw)"
  using yearScore_nonneg by (auto simp: addYearPart_def Let_def)

lemma calculateConfidence_nonneg: "0 \<le> calculateConfidence r d"
proof -
  let ?sw1 = "addTitlePart r d (0, 0)"
  let ?sw2 = "if length (authors r) > 0 \<and> length (rd_authors d) > 0
              then (fst ?sw1 + compareAuthorLists (authors r) (rd_authors d) * (3 / 10), snd ?sw1 + 3 / 10)
              else ?sw1"
  have 1: "0 \<le> fst ?sw1 \<and> 0 \<le> snd ?sw1" using addTitlePart_nonneg [of "(0, 0)" r d] by simp
  have 2: "0 \<le> fst ?sw2 \<and> 0 \<le> snd ?sw2"
    using 1 compareAuthorLists_range [of "authors r" "rd_authors d"] by simp
  have "0 \<le> normalizeByWeights (addYearPart r d ?sw2)"
    using addYearPart_nonneg [of ?sw2 r d] 2 normalizeByWeights_nonneg by blast
  then show ?thesis by (simp add: calculateConfidence_def Let_def)
qed

lemma searchWeb_not_found:
  "\<not> found (searchWebForReference w r) \<Longrightarrow> matchScore (searchWebForReference w r) = 0"
  using calculateConfidence_nonneg
  by (auto simp: searchWebForReference_def emptySource_def Let_def not_less
      split: sum.splits option.splits intro: antisym)

lemma connectorResult_invariant:
  "found (connectorResult n m e sc r ans) \<or> matchScore (connectorResult n m e sc r ans) = 0"
  using connectorResult_not_found by blast

lemma connectors_invariant:
  "found (validateWithCrossRef w r) \<or> matchScore (validateWithCrossRef w r) = 0"
  "found (validateWithSemanticScholar w r) \<or> matchScore (validateWithSemanticScholar w r) = 0"
  "found (validateWithOpenAlex w r) \<or> matchScore (validateWithOpenAlex w r) = 0"
  "found (validateWithArxiv w r) \<or> matchScore (validateWithArxiv w r) = 0"
  by (simp_all add: validateWithCrossRef_def validateWithSemanticScholar_def
        validateWithOpenAlex_def validateWithArxiv_def connectorResult_invariant)

lemma enabledConnectors_invariant:
  assumes "s \<in> set (enabledConnectors w st r)"
  shows "found s \<or> matchScore s = 0"
proof -
  from assms have "s = validateWithCrossRef w r \<or> s = validateWithSemanticScholar w r
      \<or> s = validateWithOpenAlex w r \<or> s = validateWithArxiv w r"
    by (auto simp: enabledConnectors_def split: if_splits)
  then show ?thesis using connectors_invariant [of w r] by blast
qed

lemma apiAgent_invariant:
  assumes "s \<in> set (validateWithAPIAgent w st r)"
  shows "found s \<or> matchScore s = 0"
proof -
  from assms obtain x where x: "x \<in> set (enabledConnectors w st r)" "s = tagStep step_api x"
    by (auto simp: validateWithAPIAgent_def)
  from enabledConnectors_invariant [OF x(1)] x(2) show ?thesis by (simp add: tagStep_def)
qed

lemma findBestMatch_None: "findBestMatch srcs = None \<Longrightarrow> foundSourcesOf srcs = []"
  by (auto simp: findBestMatch_def sortByScore_Nil split: list.splits)

lemma strongMatch_intro:
  assumes "s \<in> set srcs" "found s" "7 / 10 < matchScore s"
  shows "strongMatch srcs"
proof (cases "findBestMatch srcs")
  case None
  then have "foundSourcesOf srcs = []" by (rule findBestMatch_None)
  moreover have "s \<in> set (foundSourcesOf srcs)" using assms by (simp add: foundSourcesOf_def)
  ultimately show ?thesis by simp
next
  case (Some best)
  from findBestMatch_Some [OF Some] assms have "matchScore s \<le> matchScore best"
    by (auto simp: list_all_iff split: if_splits)
  with assms Some show ?thesis by (simp add: strongMatch_def)
qed

lemma apiAgent_strong:
  assumes "list_ex (\<lambda>s. matchScore s > 7 / 10) (validateWithAPIAgent w st r)"
  shows "strongMatch (validateWithAPIAgent w st r)"
proof -
  from assms obtain s where s: "s \<in> set (validateWithAPIAgent w st r)" "7 / 10 < matchScore s"
    by (auto simp: list_ex_iff)
  with apiAgent_invariant [OF s(1)] have "found s" by auto
  with s show ?thesis by (rule_tac strongMatch_intro) auto
qed

lemma finish_fst: "fst (finish w r calls srcs) = calls"
  by (simp add: finish_def Let_def split: option.splits)

lemma finish_snd:
  "snd (finish w r calls srcs) =
     (case explanationFailure w r (a_status (analyzeResults r srcs)) of
        Some msg \<Rightarrow> Inl msg
      | None \<Rightarrow> Inr \<lparr>referenceId = ref_id r, status = a_status (analyzeResults r srcs),
                       sources = srcs, issues = a_issues (analyzeResults r srcs),
                       bestMatch = a_bestMatch (analyzeResults r srcs)\<rparr>)"
  by (simp add: finish_def Let_def split: option.splits)

text \<open>
  C7, as stated: every source a connector returns with \<open>found = false\<close> has match score 0 and
  no retrieved data. The web search connector stores the extracted data before it decides
  \<open>found = (confidence > 0)\<close>: for a reference without title, authors and year the
  confidence is 0, and the source it returns is not found but carries the data.
\<close>

theorem connector_not_found_counterexample:
  "\<not> found (searchWebForReference exampleWorld bareReference)
   \<and> retrievedData (searchWebForReference exampleWorld bareReference) \<noteq> None"
  by (simp add: searchWebForReference_def exampleWorld_def bareReference_def emptySource_def
        calculateConfidence_def addTitlePart_def addYearPart_def normalizeByWeights_def
        truthy_def Let_def)

lemma searchWeb_data:
  "retrievedData (searchWebForReference w r) =
     (case perplexityAnswer w r of
        Inr (Some extractedData) \<Rightarrow> Some extractedData
      | _ \<Rightarrow> None)"
  by (simp add: searchWebForReference_def emptySource_def Let_def
      split: sum.splits option.splits)

lemma searchWeb_confidence:
  "\<not> found (searchWebForReference w r) \<Longrightarrow> perplexityAnswer w r = Inr (Some d) \<Longrightarrow>
     calculateConfidence r d = 0"
  using calculateConfidence_nonneg [of r d]
  by (simp add: searchWebForReference_def emptySource_def Let_def)

text \<open>
  C7, amended: every source returned by the CrossRef, Semantic Scholar, OpenAlex or arXiv
  connector with \<open>found = false\<close> has match score 0 and no retrieved data. A source returned
  by the web search connector with \<open>found = false\<close> has match score 0; it has no retrieved
  data when no data was extracted (the request failed or the response could not be read),
  and when data was extracted it carries that data, whose confidence is then 0.
\<close>

theorem connector_not_found:
  "(s = validateWithCrossRef w r \<or> s = validateWithSemanticScholar w r
    \<or> s = validateWithOpenAlex w r \<or> s = validateWithArxiv w r
    \<longrightarrow> \<not> found s \<longrightarrow> matchScore s = 0 \<and> retrievedData s = None)
   \<and> (\<not> found (searchWebForReference w r) \<longrightarrow>
        matchScore (searchWebForReference w r) = 0
        \<and> retrievedData (searchWebForReference w r)
            = (case perplexityAnswer w r of
                 Inr (Some extractedData) \<Rightarrow> Some extractedData
               | _ \<Rightarrow> None)
        \<and> (\<forall>extractedData. perplexityAnswer w r = Inr (Some extractedData) \<longrightarrow>
              calculateConfidence r extractedData = 0))"
proof -
  have c: "\<not> found (validateWithCrossRef w r) \<Longrightarrow>
      matchScore (validateWithCrossRef w r) = 0 \<and> retrievedData (validateWithCrossRef w r) = None"
    unfolding validateWithCrossRef_def by (rule connectorResult_not_found)
  have s2: "\<not> found (validateWithSemanticScholar w r) \<Longrightarrow>
      matchScore (validateWithSemanticScholar w r) = 0
      \<and> retrievedData (validateWithSemanticScholar w r) = None"
    unfolding validateWithSemanticScholar_def by (rule connectorResult_not_found)
  have o: "\<not> found (validateWithOpenAlex w r) \<Longrightarrow>
      matchScore (validateWithOpenAlex w r) = 0 \<and> retrievedData (validateWithOpenAlex w r) = None"
    unfolding validateWithOpenAlex_def by (rule connectorResult_not_found)
  have a: "\<not> found (validateWithArxiv w r) \<Longrightarrow>
      matchScore (validateWithArxiv w r) = 0 \<and> retrievedData (validateWithArxiv w r) = None"
    unfolding validateWithArxiv_def by (rule connectorResult_not_found)
  have d: "\<not> found (searchWebForReference w r) \<longrightarrow>
        matchScore (searchWebForReference w r) = 0
        \<and> retrievedData (searchWebForReference w r)
            = (case perplexityAnswer w r of
                 Inr (Some extractedData) \<Rightarrow> Some extractedData
               | _ \<Rightarrow> None)
        \<and> (\<forall>extractedData. perplexityAnswer w r = Inr (Some extractedData) \<longrightarrow>
              calculateConfidence r extractedData = 0)"
    using searchWeb_not_found [of w r] searchWeb_data [of w r] searchWeb_confidence [of w r]
    by blast
  have e: "s = validateWithCrossRef w r \<or> s = validateWithSemanticScholar w r
    \<or> s = validateWithOpenAlex w r \<or> s = validateWithArxiv w r
    \<longrightarrow> \<not> found s \<longrightarrow> matchScore s = 0 \<and> retrievedData s = None"
    using c s2 o a by auto
  from e d show ?thesis by (rule conjI)
qed

theorem connector_not_found_witness:
  "\<not> found (validateWithArxiv exampleWorld exampleReference)
   \<and> matchScore (validateWithArxiv exampleWorld exampleReference) = 0
   \<and> retrievedData (validateWithArxiv exampleWorld exampleReference) = None
   \<and> \<not> found (searchWebForReference exampleWorld bareReference)
   \<and> matchScore (searchWebForReference exampleWorld bareReference) = 0
   \<and> retrievedData (searchWebForReference exampleWorld bareReference) = Some exampleRecord
   \<and> calculateConfidence bareReference exampleRecord = 0"
proof -
  have h1: "\<not> found (validateWithArxiv exampleWorld exampleReference)"
    by (simp add: validateWithArxiv_def connectorResult_def exampleWorld_def emptySource_def)
  have h2: "\<not> found (searchWebForReference exampleWorld bareReference)"
    by (simp add: searchWebForReference_def exampleWorld_def bareReference_def emptySource_def
        calculateConfidence_def addTitlePart_def addYearPart_def normalizeByWeights_def
        truthy_def Let_def)
  have p: "perplexityAnswer exampleWorld bareReference = Inr (Some exampleRecord)"
    by (simp add: exampleWorld_def)
  show ?thesis
    using h1 h2 p
      connector_not_found [of "validateWithArxiv exampleWorld exampleReference" exampleWorld
        exampleReference]
      connector_not_found [of "validateWithArxiv exampleWorld bareReference" exampleWorld
        bareReference]
    by simp
qed

text \<open>
  C3: in staged validation, if the parallel-API stage yields a source with match score above
  0.7, the orchestrator invokes neither the query enhancement nor the web search (the list of
  invoked stage capabilities is the API agent alone), and the result it returns is the
  analysis of the stage-1 sources with these sources attached. The result is returned
  whenever building the explanation does not fail.
\<close>

theorem staged_early_exit:
  assumes "list_ex (\<lambda>s. matchScore s > 7 / 10) (validateWithAPIAgent w st r)"
  shows "fst (validateReferenceWithAgents w st r) = [api_agent]
     \<and> (\<forall>res. snd (validateReferenceWithAgents w st r) = Inr res \<longrightarrow>
          res = \<lparr>referenceId = ref_id r,
                 status = a_status (analyzeResults r (validateWithAPIAgent w st r)),
                 sources = validateWithAPIAgent w st r,
                 issues = a_issues (analyzeResults r (validateWithAPIAgent w st r)),
                 bestMatch = a_bestMatch (analyzeResults r (validateWithAPIAgent w st r))\<rparr>)
     \<and> (explanationFailure w r (a_status (analyzeResults r (validateWithAPIAgent w st r))) = None
        \<longrightarrow> (\<exists>res. snd (validateReferenceWithAgents w st r) = Inr res))"
proof -
  have "validateReferenceWithAgents w st r = finish w r [api_agent] (validateWithAPIAgent w st r)"
    using apiAgent_strong [OF assms] by (simp add: validateReferenceWithAgents_def Let_def)
  then show ?thesis by (auto simp: finish_fst finish_snd split: option.splits)
qed

lemma calculateMatchScore_example: "calculateMatchScore exampleReference exampleRecord = 1"
proof -
  have n: "lastNameMatches [lastWordLower ''John Smith''] (lastWordLower ''John Smith'')"
    by code_simp
  show ?thesis
    by (simp add: calculateMatchScore_def addTitlePart_def addAuthorPart_def addYearPart_def
          normalizeByWeights_def truthy_def exampleReference_def exampleRecord_def
          titleSimilarity_same parseInt_2020 yearScore_def isNaN_def doubleOfInt_small
          n Let_def)
qed

lemma apiAgent_example:
  "list_ex (\<lambda>s. matchScore s > 7 / 10)
     (validateWithAPIAgent exampleWorld exampleSettings exampleReference)"
  by (simp add: validateWithAPIAgent_def enabledConnectors_def exampleSettings_def
        validateWithCrossRef_def connectorResult_def exampleWorld_def emptySource_def
        tagStep_def calculateMatchScore_example)

theorem staged_early_exit_witness:
  "list_ex (\<lambda>s. matchScore s > 7 / 10)
     (validateWithAPIAgent exampleWorld exampleSettings exampleReference)
   \<and> fst (validateReferenceWithAgents exampleWorld exampleSettings exampleReference)
     = [api_agent]
   \<and> (\<exists>res. snd (validateReferenceWithAgents exampleWorld exampleSettings exampleReference)
             = Inr res)"
proof -
  have e: "explanationFailure exampleWorld exampleReference st = None" for st
    by (simp add: exampleWorld_def)
  show ?thesis
    using apiAgent_example staged_early_exit [OF apiAgent_example] e by simp
qed











section \<open>Properties of the reference parser\<close>

subsection \<open>The loops over the matches end\<close>

lemma matchRx_le: "e \<in> set (matchRx r s) \<Longrightarrow> length (m_rest e) \<le> length (m_rest s)"
proof (induction r s arbitrary: e rule: matchRx.induct)
  case (1 p s)
  show ?case
  proof (cases "m_rest s")
    case Nil
    with "1.prems" show ?thesis by (simp add: matchRx.simps(1))
  next
    case (Cons c cs)
    with "1.prems" have "e = MState (m_pos s + 1) (Some c) cs (m_caps s)"
      by (simp add: matchRx.simps(1) split: if_splits)
    with Cons show ?thesis by simp
  qed
next
  case (2 s)
  then show ?case by (simp add: matchRx.simps(2))
next
  case (3 a b s)
  from "3.prems" obtain x where x: "x \<in> set (matchRx a s)" "e \<in> set (matchRx b x)"
    by (auto simp: matchRx.simps(3))
  from "3.IH"(1) [OF x(1)] "3.IH"(2) [OF x(1) x(2)] show ?case by simp
next
  case (4 a b s)
  then show ?case by (auto simp: matchRx.simps(4))
next
  case (5 r s)
  from "5.prems" have "e = s \<or> (\<exists>x\<in>set (matchRx r s).
      length (m_rest x) < length (m_rest s) \<and> e \<in> set (matchRx (Star r) x))"
    by (auto simp: matchRx.simps(5) [of r s] split: if_splits)
  then show ?case
  proof
    assume "e = s"
    then show ?thesis by simp
  next
    assume "\<exists>x\<in>set (matchRx r s).
      length (m_rest x) < length (m_rest s) \<and> e \<in> set (matchRx (Star r) x)"
    then obtain x where x: "x \<in> set (matchRx r s)" "length (m_rest x) < length (m_rest s)"
      "e \<in> set (matchRx (Star r) x)" by blast
    from "5.IH"(2) [OF x(1) x(2) x(3)] x(2) show ?thesis by simp
  qed
next
  case (6 r s)
  from "6.prems" have "e = s \<or> (\<exists>x\<in>set (matchRx r s).
      length (m_rest x) < length (m_rest s) \<and> e \<in> set (matchRx (StarLazy r) x))"
    by (auto simp: matchRx.simps(6) [of r s] split: if_splits)
  then show ?case
  proof
    assume "e = s"
    then show ?thesis by simp
  next
    assume "\<exists>x\<in>set (matchRx r s).
      length (m_rest x) < length (m_rest s) \<and> e \<in> set (matchRx (StarLazy r) x)"
    then obtain x where x: "x \<in> set (matchRx r s)" "length (m_rest x) < length (m_rest s)"
      "e \<in> set (matchRx (StarLazy r) x)" by blast
    from "6.IH"(2) [OF x(1) x(2) x(3)] x(2) show ?thesis by simp
  qed
next
  case (7 n r s)
  from "7.prems" obtain x where x: "x \<in> set (matchRx r s)" "e = capture n s x"
    by (auto simp: matchRx.simps(7))
  from "7.IH" [OF x(1)] x(2) show ?case by (simp add: capture_def)
next
  case (8 r s)
  then show ?case by (auto simp: matchRx.simps(8) split: list.splits)
next
  case (9 r s)
  then show ?case by (auto simp: matchRx.simps(9) split: list.splits)
next
  case (10 s)
  then show ?case by (auto simp: matchRx.simps(10) split: if_splits)
next
  case (11 s)
  then show ?case by (auto simp: matchRx.simps(11) split: if_splits)
next
  case (12 s)
  then show ?case by (auto simp: matchRx.simps(12) split: if_splits)
qed

lemma matchRx_lt:
  "consumes r \<Longrightarrow> e \<in> set (matchRx r s) \<Longrightarrow> length (m_rest e) < length (m_rest s)"
proof (induction r arbitrary: s e)
  case (Cls p)
  show ?case
  proof (cases "m_rest s")
    case Nil
    with Cls.prems show ?thesis by (simp add: matchRx.simps(1))
  next
    case (Cons c cs)
    with Cls.prems have "e = MState (m_pos s + 1) (Some c) cs (m_caps s)"
      by (simp add: matchRx.simps(1) split: if_splits)
    with Cons show ?thesis by simp
  qed
next
  case (Seq a b)
  from Seq.prems(2) obtain e1 where e1: "e1 \<in> set (matchRx a s)" "e \<in> set (matchRx b e1)"
    by (auto simp: matchRx.simps(3))
  show ?case
  proof (cases "consumes a")
    case True
    with Seq.IH(1) e1(1) have "length (m_rest e1) < length (m_rest s)" by blast
    with matchRx_le [OF e1(2)] show ?thesis by simp
  next
    case False
    with Seq.prems(1) have "consumes b" by simp
    with Seq.IH(2) e1(2) have "length (m_rest e) < length (m_rest e1)" by blast
    with matchRx_le [OF e1(1)] show ?thesis by simp
  qed
next
  case (Alt a b)
  then show ?case by (auto simp: matchRx.simps(4))
next
  case (Group n r)
  from Group.prems(2) obtain x where x: "x \<in> set (matchRx r s)" "e = capture n s x"
    by (auto simp: matchRx.simps(7))
  from Group.IH [OF _ x(1)] Group.prems(1) x(2) show ?case by (simp add: capture_def)
qed simp_all

lemma matchAt_progress:
  "consumes r \<Longrightarrow> matchAt r i pv rest = Some m \<Longrightarrow> length (m_rest (mt_end m)) < length rest"
  using matchRx_lt [of r _ "MState i pv rest []"]
  by (auto simp: matchAt_def split: list.splits)

lemma searchRx_progress:
  "consumes r \<Longrightarrow> searchRx r i pv rest = Some m \<Longrightarrow> length (m_rest (mt_end m)) < length rest"
proof (induction rest arbitrary: i pv)
  case Nil
  then show ?case using matchAt_progress by fastforce
next
  case (Cons c cs)
  show ?case
  proof (cases "matchAt r i pv (c # cs)")
    case None
    with Cons.prems have "searchRx r (i + 1) (Some c) cs = Some m" by simp
    with Cons.IH Cons.prems(1) have "length (m_rest (mt_end m)) < length cs" by blast
    then show ?thesis by simp
  next
    case (Some m')
    with Cons.prems have "m' = m" by simp
    with Some matchAt_progress [OF Cons.prems(1)] show ?thesis by blast
  qed
qed

lemma execAll_total: "consumes r \<Longrightarrow> \<exists>ms. execAll r i pv rest = Some ms"
proof (induction r i pv rest rule: execAll.induct)
  case (1 r i pv rest)
  show ?case
  proof (cases "searchRx r i pv rest")
    case None
    then show ?thesis by (simp add: execAll.simps [of r i pv rest])
  next
    case (Some m)
    from searchRx_progress [OF "1.prems" Some]
    have lt: "length (m_rest (mt_end m)) < length rest" .
    from "1.IH" [OF Some lt "1.prems"] obtain ms where
      "execAll r (m_pos (mt_end m)) (m_prev (mt_end m)) (m_rest (mt_end m)) = Some ms" by blast
    with Some lt show ?thesis by (simp add: execAll.simps [of r i pv rest])
  qed
qed

lemma consumes_patterns:
  "consumes BRACKETED_REF_PATTERN" "consumes twoColumnPattern" "consumes periodPattern"
  "consumes fallbackPattern" "consumes sequentialPattern"
  by (simp_all add: BRACKETED_REF_PATTERN_def twoColumnPattern_def periodPattern_def
        fallbackPattern_def sequentialPattern_def exactly_def digits_def oneOrMore_def
        oneOf_def)

subsection \<open>Citation numbers of the strategies\<close>

lemma renumber_numbers:
  "map p_citation_number (renumber i rs) = map (\<lambda>k. Finite (int k + 1)) [i..<i + length rs]"
proof (induction rs arbitrary: i)
  case Nil
  then show ?case by simp
next
  case (Cons r rs)
  have "[i..<i + length (r # rs)] = i # [Suc i..<Suc i + length rs]"
    using upt_conv_Cons [of i "i + Suc (length rs)"] by simp
  then show ?case using Cons.IH [of "Suc i"] by simp
qed

lemma renumber_length: "length (renumber i rs) = length rs"
  by (induction rs arbitrary: i) simp_all

lemma twoColumn_numbers:
  "\<exists>rs. extractTwoColumnReferences text p = Some rs
        \<and> map p_citation_number rs = map (\<lambda>k. Finite (int k)) [1..<Suc (length rs)]"
proof -
  from execAll_total [OF consumes_patterns(2)] obtain ms where
    ms: "execAll twoColumnPattern 0 None text = Some ms" by blast
  define results where "results =
    (let matches = sort_key snd (concat (map (twoColumnCandidate text) ms));
         filteredMatches = filterSequential 0 matches
     in if length filteredMatches \<ge> 3
        then sliceEntries text p leadingNumberPattern (\<lambda>i m. int i + 1) 0 filteredMatches
        else [])"
  have r: "extractTwoColumnReferences text p = Some (renumber 0 results)"
    by (simp add: extractTwoColumnReferences_def ms results_def Let_def)
  have "map p_citation_number (renumber 0 results)
        = map (\<lambda>k. Finite (int k + 1)) [0..<length results]"
    using renumber_numbers [of 0 results] by simp
  also have "\<dots> = map (\<lambda>k. Finite (int k)) (map Suc [0..<length results])"
    by simp
  also have "map Suc [0..<length results] = [1..<Suc (length results)]"
    by (simp add: map_Suc_upt)
  finally show ?thesis using r by (simp add: renumber_length)
qed

lemma bracketedEntry_number: "p_citation_number (bracketedEntry p m) = parseInt10 (groupOr m 1)"
  by (simp add: bracketedEntry_def parseReferenceText_def Let_def)

lemma bracketed_numbers:
  "\<exists>ms. execAll BRACKETED_REF_PATTERN 0 None text = Some ms
        \<and> extractBracketedReferences text p = Some (map (bracketedEntry p) ms)
        \<and> map p_citation_number (map (bracketedEntry p) ms)
            = map (\<lambda>m. parseInt10 (groupOr m 1)) ms"
proof -
  from execAll_total [OF consumes_patterns(1)] obtain ms where
    ms: "execAll BRACKETED_REF_PATTERN 0 None text = Some ms" by blast
  then show ?thesis
    by (simp add: extractBracketedReferences_def bracketedEntry_number)
qed

lemma period_total: "\<exists>rs. extractPeriodNumberedReferences bib p = Some rs"
  using execAll_total [OF consumes_patterns(3), of 0 None bib]
  by (auto simp: extractPeriodNumberedReferences_def)

lemma fallback_total: "\<exists>rs. extractFallbackReferences text p = Some rs"
proof -
  from execAll_total [OF consumes_patterns(4)] obtain ms where
    ms: "execAll fallbackPattern 0 None text = Some ms" by blast
  from execAll_total [OF consumes_patterns(5)] obtain sms where
    sms: "execAll sequentialPattern 0 None text = Some sms" by blast
  show ?thesis by (simp add: extractFallbackReferences_def ms sms Let_def)
qed

lemma cascade_total: "\<exists>rs. extractReferencesWithRegex text p = Some rs"
proof -
  let ?n = "normalizeBibliographyText text"
  from bracketed_numbers [of ?n p] obtain b where
    b: "extractBracketedReferences ?n p = Some b" by blast
  from twoColumn_numbers [of ?n p] obtain t where
    t: "extractTwoColumnReferences ?n p = Some t" by blast
  from period_total [of ?n p] obtain q where
    q: "extractPeriodNumberedReferences ?n p = Some q" by blast
  from fallback_total [of ?n p] obtain f where
    f: "extractFallbackReferences ?n p = Some f" by blast
  show ?thesis by (simp add: extractReferencesWithRegex_def Let_def b t q f)
qed

lemma cascade_numbers:
  "\<exists>ms t. execAll BRACKETED_REF_PATTERN 0 None (normalizeBibliographyText text) = Some ms
     \<and> extractTwoColumnReferences (normalizeBibliographyText text) p = Some t
     \<and> (3 \<le> length ms \<longrightarrow>
          (\<exists>rs. extractReferencesWithRegex text p = Some rs
             \<and> length rs = length ms
             \<and> map p_citation_number rs = map (\<lambda>m. parseInt10 (groupOr m 1)) ms))
     \<and> (length ms < 3 \<longrightarrow> 3 \<le> length t \<longrightarrow>
          extractReferencesWithRegex text p = Some t
          \<and> map p_citation_number t = map (\<lambda>k. Finite (int k)) [1..<Suc (length t)])"
proof -
  let ?n = "normalizeBibliographyText text"
  from bracketed_numbers [of ?n p] obtain ms where
    ms: "execAll BRACKETED_REF_PATTERN 0 None ?n = Some ms"
    and b: "extractBracketedReferences ?n p = Some (map (bracketedEntry p) ms)"
    and bn: "map p_citation_number (map (bracketedEntry p) ms)
             = map (\<lambda>m. parseInt10 (groupOr m 1)) ms" by blast
  from twoColumn_numbers [of ?n p] obtain t where
    t: "extractTwoColumnReferences ?n p = Some t"
    and tn: "map p_citation_number t = map (\<lambda>k. Finite (int k)) [1..<Suc (length t)]" by blast
  have 1: "3 \<le> length ms \<Longrightarrow>
      extractReferencesWithRegex text p = Some (map (bracketedEntry p) ms)"
    by (simp add: extractReferencesWithRegex_def Let_def b)
  have 2: "length ms < 3 \<Longrightarrow> 3 \<le> length t \<Longrightarrow> extractReferencesWithRegex text p = Some t"
    by (simp add: extractReferencesWithRegex_def Let_def b t)
  show ?thesis
    apply (rule exI [of _ ms])
    apply (rule exI [of _ t])
    using ms t 1 2 bn tn by simp
qed

subsection \<open>The example bibliographies\<close>

lemma normalize_bracketedExample: "normalizeBibliographyText bracketedExample = bracketedExample"
  by code_simp

lemma bracketed_matches:
  "map_option (map (\<lambda>m. (mt_index m, groupOr m 1, groupOr m 2)))
     (execAll BRACKETED_REF_PATTERN 0 None bracketedExample)
   = Some [(0, ''1'', ''Smith J. A Great Title. Journal X, 2020. ''),
           (45, ''2'', ''Doe A. Another Title. Conf Y, 2019.'')]"
  by code_simp

lemma year1: "extractYear ''Smith J. A Great Title. Journal X, 2020.'' = ''2020''"
  by code_simp
lemma year2: "extractYear ''Doe A. Another Title. Conf Y, 2019.'' = ''2019''"
  by code_simp
lemma title1: "extractTitle ''Smith J. A Great Title. Journal X, 2020.'' = ''A Great Title''"
  by code_simp
lemma title2: "extractTitle ''Doe A. Another Title. Conf Y, 2019.'' = ''Another Title''"
  by code_simp
lemma authors1: "extractAuthorsFromReference ''Smith J. A Great Title. Journal X, 2020.'' ''A Great Title'' ''2020'' = [''Smith J'']"
  by code_simp
lemma authors2: "extractAuthorsFromReference ''Doe A. Another Title. Conf Y, 2019.'' ''Another Title'' ''2019'' = [''Doe A'']"
  by code_simp
lemma clean1: "trim (collapseSpaces (trim ''Smith J. A Great Title. Journal X, 2020. '')) = ''Smith J. A Great Title. Journal X, 2020.''"
  by code_simp
lemma clean2: "trim (collapseSpaces (trim ''Doe A. Another Title. Conf Y, 2019.'')) = ''Doe A. Another Title. Conf Y, 2019.''"
  by code_simp
lemma twoColumn_bracketedExample: "extractTwoColumnReferences bracketedExample p = Some []"
  by code_simp
lemma period_bracketedExample: "extractPeriodNumberedReferences bracketedExample p = Some []"
  by code_simp
lemma fallback_bracketedExample: "extractFallbackReferences bracketedExample p = Some []"
  by code_simp
lemma paragraphs_bracketedExample:
  "splitRx (seqs [exactly (CHR 0x0A), oneOrMore (exactly (CHR 0x0A))]) bracketedExample = [bracketedExample]"
  by code_simp
lemma normalize_gapExample: "normalizeBibliographyText gapExample = gapExample"
  by code_simp
lemma gap_matches:
  "map_option (map (\<lambda>m. groupOr m 1)) (execAll BRACKETED_REF_PATTERN 0 None gapExample)
   = Some [''1'', ''3'', ''5'']"
  by code_simp

lemma parseInt10_labels:
  "parseInt10 ''1'' = Finite 1" "parseInt10 ''2'' = Finite 2" "parseInt10 ''3'' = Finite 3"
  "parseInt10 ''5'' = Finite 5"
  by code_simp+

lemma map_bracketedEntry:
  "map (bracketedEntry p) ms =
     map (\<lambda>(i, g1, g2). parseReferenceText (trim g2) (parseInt10 g1) p i)
       (map (\<lambda>m. (mt_index m, groupOr m 1, groupOr m 2)) ms)"
  by (simp add: bracketedEntry_def)

lemma exec_Some:
  "map_option (map f) x = Some ys \<Longrightarrow> \<exists>ms. x = Some ms \<and> map f ms = ys"
  by (cases x) simp_all

lemma bracketed_bracketedExample:
  "extractBracketedReferences bracketedExample p =
     Some [\<lparr>p_raw_text = ''Smith J. A Great Title. Journal X, 2020.'',
            p_title = ''A Great Title'', p_authors = [''Smith J''], p_year = ''2020'',
            p_page_number = p, p_citation_number = Finite 1, p_relativeIndex = 0\<rparr>,
           \<lparr>p_raw_text = ''Doe A. Another Title. Conf Y, 2019.'',
            p_title = ''Another Title'', p_authors = [''Doe A''], p_year = ''2019'',
            p_page_number = p, p_citation_number = Finite 2, p_relativeIndex = 45\<rparr>]"
proof -
  from exec_Some [OF bracketed_matches] obtain ms where
    ms: "execAll BRACKETED_REF_PATTERN 0 None bracketedExample = Some ms"
        "map (\<lambda>m. (mt_index m, groupOr m 1, groupOr m 2)) ms
         = [(0, ''1'', ''Smith J. A Great Title. Journal X, 2020. ''),
            (45, ''2'', ''Doe A. Another Title. Conf Y, 2019.'')]"
    by auto
  have "extractBracketedReferences bracketedExample p = Some (map (bracketedEntry p) ms)"
    by (simp add: extractBracketedReferences_def ms(1))
  also have "map (bracketedEntry p) ms =
      [parseReferenceText (trim ''Smith J. A Great Title. Journal X, 2020. '')
         (parseInt10 ''1'') p 0,
       parseReferenceText (trim ''Doe A. Another Title. Conf Y, 2019.'')
         (parseInt10 ''2'') p 45]"
    by (simp only: map_bracketedEntry ms(2)) simp
  finally show ?thesis
    by (simp add: parseReferenceText_def Let_def clean1 clean2 year1 year2 title1 title2
          authors1 authors2 parseInt10_labels)
qed

lemma authorYearEntries_length:
  "length (authorYearEntries text p i c es) \<le> length es"
proof (induction es arbitrary: i c)
  case Nil
  then show ?case by simp
next
  case (Cons e es)
  have a: "length (authorYearEntries text p (i + 1) c' es) \<le> length es" for c'
    by (rule Cons.IH)
  show ?case
    using a [of c] a [of "the (indexOfFrom text (trim e) c) + length (trim e)"]
    by (auto simp: Let_def split: option.splits)
qed

lemma authorYear_bracketedExample:
  "length (extractAuthorYearReferences bracketedExample p) < 3"
  unfolding extractAuthorYearReferences_def paragraphs_bracketedExample
  using authorYearEntries_length [of bracketedExample p 0 0 "[bracketedExample]"]
  by (simp del: authorYearEntries.simps)

lemma cascade_bracketedExample: "extractReferencesWithRegex bracketedExample p = Some []"
  using authorYear_bracketedExample [of p]
  by (simp add: extractReferencesWithRegex_def Let_def normalize_bracketedExample
        bracketed_bracketedExample twoColumn_bracketedExample period_bracketedExample
        fallback_bracketedExample)

lemma bracketed_gapExample:
  "\<exists>rs. extractBracketedReferences gapExample p = Some rs
        \<and> map p_citation_number rs = [Finite 1, Finite 3, Finite 5]"
proof -
  from exec_Some [OF gap_matches] obtain ms where
    ms: "execAll BRACKETED_REF_PATTERN 0 None gapExample = Some ms"
        "map (\<lambda>m. groupOr m 1) ms = [''1'', ''3'', ''5'']"
    by auto
  have "map p_citation_number (map (bracketedEntry p) ms)
        = map parseInt10 (map (\<lambda>m. groupOr m 1) ms)"
    by (simp add: bracketedEntry_number)
  then have "map p_citation_number (map (bracketedEntry p) ms) = [Finite 1, Finite 3, Finite 5]"
    by (simp only: ms(2)) (simp add: parseInt10_labels)
  then show ?thesis by (simp add: extractBracketedReferences_def ms(1))
qed

lemma cascade_gapExample:
  "map_option (map p_citation_number) (extractReferencesWithRegex gapExample p)
   = Some [Finite 1, Finite 3, Finite 5]"
proof -
  from bracketed_gapExample [of p] obtain rs where
    rs: "extractBracketedReferences gapExample p = Some rs"
        "map p_citation_number rs = [Finite 1, Finite 3, Finite 5]"
    by auto
  from rs(2) have "length (map p_citation_number rs) = 3" by simp
  then have l: "length rs = 3" by simp
  show ?thesis
    by (simp add: extractReferencesWithRegex_def Let_def normalize_gapExample rs l)
qed

lemma normalize_twoColumnExample:
  "normalizeBibliographyText twoColumnExample = twoColumnExample"
  by code_simp

lemma bracketed_twoColumnExample:
  "execAll BRACKETED_REF_PATTERN 0 None twoColumnExample = Some []"
  by code_simp

lemma candidates_twoColumnExample:
  "map_option (\<lambda>ms. concat (map (twoColumnCandidate twoColumnExample) ms))
     (execAll twoColumnPattern 0 None twoColumnExample)
   = Some [(1, 0), (2, 40), (4, 79)]"
  by code_simp

lemma slices_twoColumnExample:
  "trim (replaceFirst leadingNumberPattern removeMatch
          (trim (substring twoColumnExample 0 40)))
   = ''Smith J. Learning from data sets. 2019.''"
  "trim (replaceFirst leadingNumberPattern removeMatch
          (trim (substring twoColumnExample 40 79)))
   = ''Doe A. Parsing old references. 2020.''"
  "trim (replaceFirst leadingNumberPattern removeMatch
          (trim (substring twoColumnExample 79 (length twoColumnExample))))
   = ''Roe B. Numbers without brackets. 2021.''"
  by code_simp+

lemma clean_twoColumnExample:
  "trim (collapseSpaces ''Smith J. Learning from data sets. 2019.'')
   = ''Smith J. Learning from data sets. 2019.''"
  "trim (collapseSpaces ''Doe A. Parsing old references. 2020.'')
   = ''Doe A. Parsing old references. 2020.''"
  "trim (collapseSpaces ''Roe B. Numbers without brackets. 2021.'')
   = ''Roe B. Numbers without brackets. 2021.''"
  by code_simp+

lemma titles_twoColumnExample:
  "extractTitle ''Smith J. Learning from data sets. 2019.'' = ''Learning from data sets''"
  "extractTitle ''Doe A. Parsing old references. 2020.'' = ''Parsing old references''"
  "extractTitle ''Roe B. Numbers without brackets. 2021.'' = ''Numbers without brackets''"
  by code_simp+

lemma meaningful_title:
  "extractTitle (trim (collapseSpaces s)) \<noteq> [] \<Longrightarrow> meaningful (parseReferenceText s n p i)"
  by (simp add: meaningful_def parseReferenceText_def Let_def truthy_def)

lemma sorted_candidates:
  "sort_key snd [(1::int, 0::nat), (2, 40), (4, 79)] = [(1, 0), (2, 40), (4, 79)]"
  by simp

lemma filtered_candidates:
  "filterSequential 0 [(1, 0), (2, 40), (4, 79)] = [(1, 0), (2, 40), (4, 79)]"
  by simp

lemma twoColumn_twoColumnExample:
  "\<exists>t. extractTwoColumnReferences twoColumnExample p = Some t \<and> length t = 3"
proof -
  from candidates_twoColumnExample obtain ms where
    ms: "execAll twoColumnPattern 0 None twoColumnExample = Some ms"
    and c: "concat (map (twoColumnCandidate twoColumnExample) ms) = [(1, 0), (2, 40), (4, 79)]"
    by (cases "execAll twoColumnPattern 0 None twoColumnExample") simp_all
  have m: "meaningful (parseReferenceText ''Smith J. Learning from data sets. 2019.'' n p i)"
       "meaningful (parseReferenceText ''Doe A. Parsing old references. 2020.'' n p i)"
       "meaningful (parseReferenceText ''Roe B. Numbers without brackets. 2021.'' n p i)"
    for n i
    by (rule meaningful_title, simp add: clean_twoColumnExample titles_twoColumnExample)+
  have s: "length (sliceEntries twoColumnExample p leadingNumberPattern (\<lambda>i m. int i + 1) 0
             [(1, 0), (2, 40), (4, 79)]) = 3"
    by (simp add: Let_def slices_twoColumnExample m)
  show ?thesis
    by (simp add: extractTwoColumnReferences_def ms c sorted_candidates filtered_candidates
          Let_def renumber_length s del: sliceEntries.simps filterSequential.simps)
qed

lemma upt_three: "[1..<Suc 3] = [1, 2, 3]"
  by code_simp

text \<open>
  C5, as stated: \<open>extractReferencesWithRegex\<close> applied to the bibliography of the two
  bracketed entries returns exactly 2 entries. It returns none: the bracketed strategy finds
  the two entries, but a strategy wins only with three entries or more, the two-column and
  the period-numbered strategies find nothing, the author-year strategy finds at most one
  entry in a text without line breaks, and the fallback finds fewer than three boundaries.
\<close>

theorem parser_bracketed_counterexample:
  "extractReferencesWithRegex bracketedExample 1 = Some []"
  by (rule cascade_bracketedExample)

text \<open>
  C5, amended: for any fallback page number, the bracketed strategy
  (\<open>extractBracketedReferences\<close>) applied to the normalised text of that bibliography
  returns exactly 2 entries, with citation numbers 1 and 2, titles ``A Great Title'' and
  ``Another Title'' and years ``2020'' and ``2019''; \<open>extractReferencesWithRegex\<close> applied to
  the text returns the empty list, since no strategy yields three entries.
\<close>

theorem parser_bracketed_example:
  "extractBracketedReferences (normalizeBibliographyText bracketedExample) startPage =
     Some [\<lparr>p_raw_text = ''Smith J. A Great Title. Journal X, 2020.'',
            p_title = ''A Great Title'', p_authors = [''Smith J''], p_year = ''2020'',
            p_page_number = startPage, p_citation_number = Finite 1, p_relativeIndex = 0\<rparr>,
           \<lparr>p_raw_text = ''Doe A. Another Title. Conf Y, 2019.'',
            p_title = ''Another Title'', p_authors = [''Doe A''], p_year = ''2019'',
            p_page_number = startPage, p_citation_number = Finite 2, p_relativeIndex = 45\<rparr>]
   \<and> extractReferencesWithRegex bracketedExample startPage = Some []"
  by (simp add: normalize_bracketedExample bracketed_bracketedExample
        cascade_bracketedExample)

text \<open>
  C6, as stated: for every bibliography text, the citation numbers of the returned list are
  1..N in list order. For the bibliography with the bracketed labels 1, 3 and 5 the bracketed
  strategy wins with three entries, and their citation numbers are the labels 1, 3 and 5.
\<close>

theorem parser_numbering_counterexample:
  "map_option (map p_citation_number) (extractReferencesWithRegex gapExample 1)
   = Some [Finite 1, Finite 3, Finite 5]"
  by (rule cascade_gapExample)

text \<open>
  C6, amended: for every bibliography text and page number, \<open>extractReferencesWithRegex\<close>
  returns a list. If the pattern of the bracket markers has at least 3 matches in the
  normalised text, the returned list has one entry per match, in order, and the citation
  number of each entry is the number read from its marker: the entries are not renumbered.
  If it has fewer than 3 matches and the two-column strategy yields at least 3 entries, the
  returned list is the list of that strategy, and its citation numbers are 1..N in list
  order, N being its length.
\<close>

theorem parser_numbering:
  "\<exists>ms t. execAll BRACKETED_REF_PATTERN 0 None (normalizeBibliographyText bibliography) = Some ms
     \<and> extractTwoColumnReferences (normalizeBibliographyText bibliography) startPage = Some t
     \<and> (\<exists>rs. extractReferencesWithRegex bibliography startPage = Some rs)
     \<and> (3 \<le> length ms \<longrightarrow>
          (\<exists>rs. extractReferencesWithRegex bibliography startPage = Some rs
             \<and> length rs = length ms
             \<and> map p_citation_number rs = map (\<lambda>m. parseInt10 (groupOr m 1)) ms))
     \<and> (length ms < 3 \<longrightarrow> 3 \<le> length t \<longrightarrow>
          extractReferencesWithRegex bibliography startPage = Some t
          \<and> map p_citation_number t = map (\<lambda>k. Finite (int k)) [1..<Suc (length t)])"
  using cascade_numbers [of bibliography startPage] cascade_total [of bibliography startPage]
  by blast

text \<open>In the witness, the markers 1, 3 and 5 of the first bibliography stay 1, 3 and 5, and
  the numbers 1, 2 and 4 of the second become 1, 2 and 3.\<close>

theorem parser_numbering_witness:
  "(\<exists>ms. execAll BRACKETED_REF_PATTERN 0 None (normalizeBibliographyText gapExample) = Some ms
         \<and> 3 \<le> length ms)
   \<and> (\<exists>rs. extractReferencesWithRegex gapExample 1 = Some rs
         \<and> map p_citation_number rs = [Finite 1, Finite 3, Finite 5])
   \<and> execAll BRACKETED_REF_PATTERN 0 None (normalizeBibliographyText twoColumnExample) = Some []
   \<and> (\<exists>t. extractTwoColumnReferences (normalizeBibliographyText twoColumnExample) 1 = Some t
         \<and> 3 \<le> length t)
   \<and> (\<exists>rs. extractReferencesWithRegex twoColumnExample 1 = Some rs
         \<and> map p_citation_number rs = [Finite 1, Finite 2, Finite 3])"
proof -
  from exec_Some [OF gap_matches] obtain gs where
    gs: "execAll BRACKETED_REF_PATTERN 0 None gapExample = Some gs"
    and gl: "map (\<lambda>m. groupOr m 1) gs = [''1'', ''3'', ''5'']" by auto
  from gl have "length (map (\<lambda>m. groupOr m 1) gs) = 3" by simp
  then have g3: "length gs = 3" by simp
  have gn: "map (\<lambda>m. parseInt10 (groupOr m 1)) gs = [Finite 1, Finite 3, Finite 5]"
  proof -
    have "map (\<lambda>m. parseInt10 (groupOr m 1)) gs = map parseInt10 (map (\<lambda>m. groupOr m 1) gs)"
      by simp
    then show ?thesis by (simp only: gl) (simp add: parseInt10_labels)
  qed
  from parser_numbering [of gapExample 1] obtain ms t where
    1: "execAll BRACKETED_REF_PATTERN 0 None (normalizeBibliographyText gapExample) = Some ms"
    and 2: "3 \<le> length ms \<longrightarrow>
          (\<exists>rs. extractReferencesWithRegex gapExample 1 = Some rs
             \<and> length rs = length ms
             \<and> map p_citation_number rs = map (\<lambda>m. parseInt10 (groupOr m 1)) ms)"
    by blast
  from 1 gs have m: "ms = gs" by (simp add: normalize_gapExample)
  have a: "\<exists>ms. execAll BRACKETED_REF_PATTERN 0 None (normalizeBibliographyText gapExample) = Some ms
         \<and> 3 \<le> length ms"
    using 1 m g3 by simp
  have b: "\<exists>rs. extractReferencesWithRegex gapExample 1 = Some rs
         \<and> map p_citation_number rs = [Finite 1, Finite 3, Finite 5]"
    using 2 m g3 gn by auto
  from twoColumn_twoColumnExample [of 1] obtain t0 where
    t0: "extractTwoColumnReferences twoColumnExample 1 = Some t0" and l0: "length t0 = 3"
    by blast
  from parser_numbering [of twoColumnExample 1] obtain ms' t' where
    3: "execAll BRACKETED_REF_PATTERN 0 None (normalizeBibliographyText twoColumnExample)
        = Some ms'"
    and 4: "extractTwoColumnReferences (normalizeBibliographyText twoColumnExample) 1 = Some t'"
    and 5: "length ms' < 3 \<longrightarrow> 3 \<le> length t' \<longrightarrow>
          extractReferencesWithRegex twoColumnExample 1 = Some t'
          \<and> map p_citation_number t' = map (\<lambda>k. Finite (int k)) [1..<Suc (length t')]"
    by blast
  from 3 have e: "ms' = []"
    by (simp add: normalize_twoColumnExample bracketed_twoColumnExample)
  from 4 t0 have t: "t' = t0" by (simp add: normalize_twoColumnExample)
  have c: "execAll BRACKETED_REF_PATTERN 0 None (normalizeBibliographyText twoColumnExample)
           = Some []"
    using 3 e by simp
  have d: "\<exists>t. extractTwoColumnReferences (normalizeBibliographyText twoColumnExample) 1 = Some t
         \<and> 3 \<le> length t"
    using 4 t l0 by simp
  have n: "map (\<lambda>k. Finite (int k)) [1..<Suc (length t0)] = [Finite 1, Finite 2, Finite 3]"
    by (simp only: l0 upt_three) simp
  from 5 e t l0 have 6: "extractReferencesWithRegex twoColumnExample 1 = Some t0
          \<and> map p_citation_number t0 = map (\<lambda>k. Finite (int k)) [1..<Suc (length t0)]"
    by simp
  have f: "\<exists>rs. extractReferencesWithRegex twoColumnExample 1 = Some rs
         \<and> map p_citation_number rs = [Finite 1, Finite 2, Finite 3]"
    using 6 [unfolded n] by (rule exI [of _ t0])
  from a b c d f show ?thesis by (intro conjI)
qed

end
